theory Spec2Isabelle
  imports Complex_Main "HOL-Library.AList"
begin

section \<open>Data model (backend/models/risk\_models.py)\<close>

text \<open>
  Python floats are modelled as real numbers and the formulas of the engines are read
  as exact arithmetic, with two exceptions that are written out where they occur: the
  rounded sum of the four weights that divides every total risk score, and the numpy
  operations of the ensemble engine that yield NaN or an infinity. A \<open>datetime\<close> is an
  integer count of microseconds; the reading of the clock (\<open>datetime.now()\<close>) is a
  parameter of every operation that takes it.
\<close>

type_synonym datetime = int

datatype RiskLevel = CRITICAL | HIGH | MEDIUM | LOW | INFORMATIONAL

datatype AssetCategory =
    WORKSTATION | SERVER | CLOUD_INSTANCE | NETWORK_DEVICE
  | DATABASE | IOT_DEVICE | CONTAINER | SAAS_APPLICATION

datatype AssetCriticality = MISSION_CRITICAL | CRIT_HIGH | CRIT_MEDIUM | CRIT_LOW

datatype VulnerabilitySource =
    SYSLOG | WINDOWS_EVENT | WINDOWS_SECURITY | M365_DEFENDER
  | DEFENDER_SECURITY | VULNERABILITY_SCANNER | MANUAL

text \<open>
  The dataclass \<open>Vulnerability\<close>. The last field is not declared by the dataclass: the
  ensemble engine reads the attribute \<open>actively_exploited\<close> of every vulnerability it is
  given, and a Python object carries it only when a caller has set it. \<open>None\<close> is the
  object as the dataclass builds it (reading the attribute raises \<open>AttributeError\<close>).
\<close>

record Vulnerability =
  vuln_id :: string
  cve_id :: "string option"
  vuln_title :: string
  vuln_description :: string
  severity :: RiskLevel
  cvss_score :: real
  cvss_vector :: "string option"
  published_date :: "datetime option"
  discovered_date :: datetime
  source :: VulnerabilitySource
  affected_assets :: "string list"
  exploit_available :: bool
  exploit_public :: bool
  patch_available :: bool
  remediation_status :: string
  attack_vector :: "string option"
  attack_complexity :: "string option"
  privileges_required :: "string option"
  user_interaction :: "string option"
  vuln_tags :: "string list"
  references :: "string list"
  actively_exploited :: "bool option"

record Asset =
  asset_id :: string
  asset_name :: string
  category :: AssetCategory
  ip_address :: string
  os :: string
  os_version :: "string option"
  criticality :: AssetCriticality
  vulnerability_ids :: "string list"
  last_scan_date :: datetime
  status :: string
  asset_tags :: "string list"
  owner :: "string option"
  location :: "string option"
  exposed_to_internet :: bool
  contains_sensitive_data :: bool
  patch_level :: string
  antivirus_status :: string
  firewall_enabled :: bool
  risk_score_field :: "real option"

text \<open>The property \<open>Asset.risk_score\<close>: the stored value, or 0.0 while none is stored.\<close>

definition risk_score :: "Asset \<Rightarrow> real" where
  "risk_score a = (case risk_score_field a of Some v \<Rightarrow> v | None \<Rightarrow> 0)"

record RiskScenario =
  scenario_id :: string
  scenario_title :: string
  scenario_description :: string
  scenario_category :: string
  scenario_severity :: RiskLevel
  likelihood :: string
  impact :: string
  affected_asset_ids :: "string list"
  correlated_vulnerability_ids :: "string list"
  mitre_tactics :: "string list"
  mitre_techniques :: "string list"
  business_risk_score :: real
  detection_coverage :: real
  remediation_plan :: string
  created_at :: datetime
  updated_at :: datetime
  log_evidence :: "(string \<times> string) list list"
  indicators_of_compromise :: "string list"

record RiskCalculationResult =
  result_asset_id :: string
  total_risk_score :: real
  vulnerability_risk :: real
  exposure_risk :: real
  criticality_multiplier :: real
  threat_intelligence_factor :: real
  contributing_vulnerabilities :: "string list"
  risk_factors :: "(string \<times> real) list"
  recommendations :: "string list"
  calculated_at :: datetime


section \<open>Python helpers\<close>

text \<open>\<open>str(n)\<close> for a non-negative integer, as the f-strings print a \<open>len(...)\<close>.\<close>

function str_nat :: "nat \<Rightarrow> string" where
  "str_nat n =
     (if n < 10 then [''0123456789'' ! n]
      else str_nat (n div 10) @ [''0123456789'' ! (n mod 10)])"
  by pat_completeness auto
termination
  by (relation "measure (\<lambda>n. n)") auto

declare str_nat.simps [simp del]

text \<open>\<open>sep.join(parts)\<close>.\<close>

fun join :: "string \<Rightarrow> string list \<Rightarrow> string" where
  "join sep [] = []"
| "join sep [x] = x"
| "join sep (x # y # ys) = x @ sep @ join sep (y # ys)"

text \<open>
  \<open>round(x, 2)\<close>: the nearest multiple of 0.01, a tie going to the even neighbour.
\<close>

definition round_half_even :: "real \<Rightarrow> int" where
  "round_half_even x =
     (let f = \<lfloor>x\<rfloor>; d = x - of_int f
      in if d < 1 / 2 then f
         else if d > 1 / 2 then f + 1
         else if even f then f else f + 1)"

definition round2 :: "real \<Rightarrow> real" where
  "round2 x = of_int (round_half_even (x * 100)) / 100"

text \<open>\<open>d.get(k, default)\<close> on a dictionary kept as an association list.\<close>

definition dict_get :: "('k \<times> 'v) list \<Rightarrow> 'k \<Rightarrow> 'v \<Rightarrow> 'v" where
  "dict_get d k dflt = (case map_of d k of Some v \<Rightarrow> v | None \<Rightarrow> dflt)"

text \<open>Truth value of an \<open>Optional[str]\<close>: \<open>None\<close> and the empty string are false.\<close>

definition truthy :: "string option \<Rightarrow> bool" where
  "truthy s = (case s of None \<Rightarrow> False | Some t \<Rightarrow> t \<noteq> [])"

section \<open>The risk calculation engine (engines/risk\_engine.py)\<close>

text \<open>
  Asset objects are shared and mutable: the engine's dictionary, its callers and the
  scenario generator all hold the same object, and \<open>calculate_asset_risk\<close> assigns its
  \<open>risk_score\<close>. Assets therefore live in a store addressed by references; the engine's
  dictionary maps an asset id to a reference. Vulnerabilities are never assigned to by
  the engine and are kept by value. Dictionaries are association lists in insertion
  order with distinct keys.
\<close>

type_synonym ref = nat

record RiskCalculationEngine =
  store :: "ref \<Rightarrow> Asset"
  assets :: "(string \<times> ref) list"
  vulnerabilities :: "(string \<times> Vulnerability) list"
  risk_scenarios :: "RiskScenario list"
  threat_intel :: "(string \<times> real) list"

definition WEIGHTS_vulnerability_severity :: real where
  "WEIGHTS_vulnerability_severity = 0.35"

definition WEIGHTS_exploitability :: real where
  "WEIGHTS_exploitability = 0.25"

definition WEIGHTS_asset_criticality :: real where
  "WEIGHTS_asset_criticality = 0.20"

definition WEIGHTS_exposure :: real where
  "WEIGHTS_exposure = 0.10"

definition WEIGHTS_threat_intelligence :: real where
  "WEIGHTS_threat_intelligence = 0.10"

fun CVSS_MULTIPLIERS :: "RiskLevel \<Rightarrow> real" where
  "CVSS_MULTIPLIERS CRITICAL = 1.0"
| "CVSS_MULTIPLIERS HIGH = 0.8"
| "CVSS_MULTIPLIERS MEDIUM = 0.5"
| "CVSS_MULTIPLIERS LOW = 0.2"
| "CVSS_MULTIPLIERS INFORMATIONAL = 0.0"

fun CRITICALITY_MULTIPLIERS :: "AssetCriticality \<Rightarrow> real" where
  "CRITICALITY_MULTIPLIERS MISSION_CRITICAL = 2.0"
| "CRITICALITY_MULTIPLIERS CRIT_HIGH = 1.5"
| "CRITICALITY_MULTIPLIERS CRIT_MEDIUM = 1.0"
| "CRITICALITY_MULTIPLIERS CRIT_LOW = 0.5"

definition add_asset :: "RiskCalculationEngine \<Rightarrow> ref \<Rightarrow> RiskCalculationEngine" where
  "add_asset e r = e\<lparr>assets := AList.update (asset_id (store e r)) r (assets e)\<rparr>"

definition add_vulnerability ::
  "RiskCalculationEngine \<Rightarrow> Vulnerability \<Rightarrow> RiskCalculationEngine" where
  "add_vulnerability e v =
     e\<lparr>vulnerabilities := AList.update (vuln_id v) v (vulnerabilities e)\<rparr>"

definition add_threat_intelligence ::
  "RiskCalculationEngine \<Rightarrow> string \<Rightarrow> real \<Rightarrow> RiskCalculationEngine" where
  "add_threat_intelligence e cve threat_score =
     e\<lparr>threat_intel := AList.update cve (min (max threat_score 0) 1) (threat_intel e)\<rparr>"

definition exploit_factor :: "Vulnerability \<Rightarrow> real" where
  "exploit_factor v =
     (if exploit_public v then 1.5 else if exploit_available v then 1.3 else 1.0)"

definition patch_factor :: "Vulnerability \<Rightarrow> real" where
  "patch_factor v = (if patch_available v then 0.7 else 1.0)"

definition vector_mult :: "Vulnerability \<Rightarrow> real" where
  "vector_mult v =
     (case attack_vector v of
        None \<Rightarrow> 1.0
      | Some a \<Rightarrow>
          dict_get [(''Network'', 1.3), (''Adjacent'', 1.1), (''Local'', 0.9),
                    (''Physical'', 0.6)] a 1.0)"

definition threat_mult :: "RiskCalculationEngine \<Rightarrow> Vulnerability \<Rightarrow> real" where
  "threat_mult e v =
     (case cve_id v of
        None \<Rightarrow> 1.0
      | Some c \<Rightarrow>
          (if c \<noteq> [] then
             (case map_of (threat_intel e) c of
                Some t \<Rightarrow> 1.0 + t * 0.5
              | None \<Rightarrow> 1.0)
           else 1.0))"

definition calculate_vulnerability_risk ::
  "RiskCalculationEngine \<Rightarrow> Vulnerability \<Rightarrow> real" where
  "calculate_vulnerability_risk e v =
     (let base_score = (cvss_score v / 10.0) * 100;
          severity_mult = CVSS_MULTIPLIERS (severity v);
          risk = base_score * severity_mult * exploit_factor v * patch_factor v
                   * vector_mult v * threat_mult e v
      in min risk 100.0)"

text \<open>The vulnerabilities an asset's ids resolve to; a dangling id is skipped.\<close>

definition asset_vulns :: "RiskCalculationEngine \<Rightarrow> Asset \<Rightarrow> Vulnerability list" where
  "asset_vulns e a = List.map_filter (map_of (vulnerabilities e)) (vulnerability_ids a)"

definition weighted_vulnerability_risk :: "real list \<Rightarrow> real" where
  "weighted_vulnerability_risk vuln_scores =
     (let vuln_scores_sorted = rev (sort vuln_scores)
      in if length vuln_scores_sorted = 1 then hd vuln_scores_sorted
         else
           (let top_vuln_weight = 0.6;
                remaining_weight = 0.4 / real (length vuln_scores_sorted - 1)
            in hd vuln_scores_sorted * top_vuln_weight
               + sum_list (map (\<lambda>score. score * remaining_weight)
                             (tl vuln_scores_sorted))))"

definition calculate_exposure_risk :: "Asset \<Rightarrow> real" where
  "calculate_exposure_risk a =
     (let s0 = 0.0;
          s1 = (if exposed_to_internet a then s0 + 30.0 else s0);
          s2 = (if contains_sensitive_data a then s1 + 25.0 else s1);
          s3 = s2 + dict_get [(''Current'', 0.0), (''Outdated'', 15.0),
                              (''Critical'', 30.0), (''Unknown'', 20.0)]
                       (patch_level a) 20.0;
          s4 = s3 + dict_get [(''Active'', 0.0), (''Outdated'', 10.0),
                              (''Inactive'', 20.0), (''Unknown'', 15.0)]
                       (antivirus_status a) 15.0;
          s5 = (if \<not> firewall_enabled a then s4 + 15.0 else s4)
      in min s5 100.0)"

definition threat_scores :: "RiskCalculationEngine \<Rightarrow> Vulnerability list \<Rightarrow> real list" where
  "threat_scores e vulns =
     List.map_filter
       (\<lambda>v. if truthy (cve_id v) then map_of (threat_intel e) (the (cve_id v)) else None)
       vulns"

definition calculate_threat_factor ::
  "RiskCalculationEngine \<Rightarrow> Vulnerability list \<Rightarrow> real" where
  "calculate_threat_factor e vulns =
     (if vulns = [] then 1.0
      else if threat_scores e vulns = [] then 1.0
      else 1.0 + Max (set (threat_scores e vulns)))"


text \<open>
  Each \<open>if c: recommendations.append(m)\<close> of the source adds the one-element list
  \<open>append_if c m\<close> to the end of the list built so far.
\<close>

definition append_if :: "bool \<Rightarrow> 'a \<Rightarrow> 'a list" where
  "append_if c m = (if c then [m] else [])"

definition generate_recommendations :: "Asset \<Rightarrow> Vulnerability list \<Rightarrow> string list" where
  "generate_recommendations a vulns =
     (let critical_vulns = filter (\<lambda>v. severity v = CRITICAL) vulns;
          high_vulns = filter (\<lambda>v. severity v = HIGH) vulns;
          exploit_vulns = filter exploit_public vulns;
          recommendations' =
            append_if (critical_vulns \<noteq> [])
              (''URGENT: Patch '' @ str_nat (length critical_vulns)
                 @ '' critical vulnerabilities immediately'')
            @ append_if (high_vulns \<noteq> [])
                (''Prioritize patching '' @ str_nat (length high_vulns)
                   @ '' high-severity vulnerabilities'')
            @ append_if (exploit_vulns \<noteq> [])
                (''Address '' @ str_nat (length exploit_vulns)
                   @ '' vulnerabilities with public exploits'')
            @ append_if (exposed_to_internet a)
                ''Consider reducing internet exposure or implementing additional network controls''
            @ append_if (patch_level a \<in> set [''Outdated'', ''Critical''])
                ''Update system patches to current level''
            @ append_if (antivirus_status a \<noteq> ''Active'')
                ''Ensure antivirus is active and up-to-date''
            @ append_if (\<not> firewall_enabled a)
                ''Enable host-based firewall''
      in take 5 recommendations')"

text \<open>
  \<open>calculate_asset_risk\<close> takes the reference of the asset and the reading of the clock
  that stamps the result; it returns the result and the engine after the call. The
  assignment \<open>asset.risk_score = total_risk\<close> is the update of the store.
\<close>

text \<open>
  The divisor of the total is \<open>sum([0.35, 0.10, 0.20, 0.10])\<close>, evaluated in binary64
  arithmetic, and there it is not 0.75: accumulated from the left, as the built-in
  \<open>sum\<close> of CPython up to 3.11 does, \<open>0.35 + 0.10\<close> rounds to 0.44999999999999996,
  adding 0.20 gives 0.6499999999999999, and adding 0.10 gives 0.7499999999999999, the
  double just below 0.75, that is \<open>3/4 - 2\<^sup>-\<^sup>5\<^sup>3\<close>. The rounding is kept here because it
  changes the divisor of every total; all other arithmetic of the model is exact.
\<close>

definition WEIGHTS_sum :: real where
  "WEIGHTS_sum = 3 / 4 - 1 / 2 ^ 53"

definition total_risk_of :: "real \<Rightarrow> real \<Rightarrow> real \<Rightarrow> real \<Rightarrow> real" where
  "total_risk_of vulnerability_risk' exposure_risk' criticality_mult threat_factor =
     (let total_risk =
            ((vulnerability_risk' * WEIGHTS_vulnerability_severity)
             + (exposure_risk' * WEIGHTS_exposure)
             + (vulnerability_risk' * criticality_mult * WEIGHTS_asset_criticality)
             + (vulnerability_risk' * threat_factor * WEIGHTS_threat_intelligence))
            / WEIGHTS_sum
      in min (total_risk * criticality_mult) 100.0)"

definition calculate_asset_risk ::
  "RiskCalculationEngine \<Rightarrow> datetime \<Rightarrow> ref
     \<Rightarrow> RiskCalculationResult \<times> RiskCalculationEngine" where
  "calculate_asset_risk e now r =
     (let asset = store e r;
          avs = asset_vulns e asset
      in if avs = [] then
           (\<lparr>result_asset_id = asset_id asset,
             total_risk_score = 0.0,
             vulnerability_risk = 0.0,
             exposure_risk = 0.0,
             criticality_multiplier = 1.0,
             threat_intelligence_factor = 1.0,
             contributing_vulnerabilities = [],
             risk_factors = [],
             recommendations = [''No vulnerabilities detected. Continue regular scanning.''],
             calculated_at = now\<rparr>, e)
         else
           (let vuln_scores = map (calculate_vulnerability_risk e) avs;
                vulnerability_risk' = weighted_vulnerability_risk vuln_scores;
                exposure_risk' = calculate_exposure_risk asset;
                criticality_mult = CRITICALITY_MULTIPLIERS (criticality asset);
                threat_factor = calculate_threat_factor e avs;
                total_risk = total_risk_of vulnerability_risk' exposure_risk'
                               criticality_mult threat_factor;
                asset' = asset\<lparr>risk_score_field := Some total_risk\<rparr>;
                e' = e\<lparr>store := (store e)(r := asset')\<rparr>;
                recommendations' = generate_recommendations asset' avs;
                risk_factors' =
                  [(''vulnerability_base'', round2 vulnerability_risk'),
                   (''exposure'', round2 exposure_risk'),
                   (''criticality'', round2 criticality_mult),
                   (''threat_intelligence'', round2 threat_factor),
                   (''total_vulnerabilities'', real (length avs)),
                   (''critical_vulnerabilities'',
                      real (length (filter (\<lambda>v. severity v = CRITICAL) avs))),
                   (''high_vulnerabilities'',
                      real (length (filter (\<lambda>v. severity v = HIGH) avs)))]
            in (\<lparr>result_asset_id = asset_id asset',
                  total_risk_score = total_risk,
                  vulnerability_risk = vulnerability_risk',
                  exposure_risk = exposure_risk',
                  criticality_multiplier = criticality_mult,
                  threat_intelligence_factor = threat_factor,
                  contributing_vulnerabilities = map vuln_id avs,
                  risk_factors = risk_factors',
                  recommendations = recommendations',
                  calculated_at = now\<rparr>, e')))"


text \<open>
  \<open>calculate_all_assets\<close>: every asset of the dictionary in turn, each on the engine the
  previous call left, then sorted by descending total score (a stable sort).
\<close>

fun calculate_each ::
  "RiskCalculationEngine \<Rightarrow> datetime \<Rightarrow> ref list
     \<Rightarrow> RiskCalculationResult list \<times> RiskCalculationEngine" where
  "calculate_each e now [] = ([], e)"
| "calculate_each e now (r # rs) =
     (let (res, e1) = calculate_asset_risk e now r;
          (results, e2) = calculate_each e1 now rs
      in (res # results, e2))"

definition calculate_all_assets ::
  "RiskCalculationEngine \<Rightarrow> datetime
     \<Rightarrow> RiskCalculationResult list \<times> RiskCalculationEngine" where
  "calculate_all_assets e now =
     (let (results, e') = calculate_each e now (map snd (assets e))
      in (sort_key (\<lambda>x. - total_risk_score x) results, e'))"

subsection \<open>Scenario correlation\<close>

definition create_exploitation_scenario ::
  "RiskCalculationEngine \<Rightarrow> datetime \<Rightarrow> ref \<Rightarrow> Vulnerability list
     \<Rightarrow> RiskScenario \<times> RiskCalculationEngine" where
  "create_exploitation_scenario e now r vulns =
     (let vuln_ids = map vuln_id vulns;
          (risk_calc, e') = calculate_asset_risk e now r;
          asset = store e' r;
          business_risk = min (total_risk_score risk_calc * 1.2) 100
      in (\<lparr>scenario_id = ''rs_exploit_'' @ asset_id asset,
            scenario_title = ''Multi-Stage Exploitation of '' @ asset_name asset,
            scenario_description =
              ''Multiple critical vulnerabilities on '' @ asset_name asset
              @ '' could be chained for privilege escalation and lateral movement'',
            scenario_category = ''Multi-Stage Attack'',
            scenario_severity = CRITICAL,
            likelihood = ''Likely'',
            impact = ''Catastrophic'',
            affected_asset_ids = [asset_id asset],
            correlated_vulnerability_ids = vuln_ids,
            mitre_tactics = [''Initial Access'', ''Privilege Escalation'', ''Lateral Movement''],
            mitre_techniques = [''T1190'', ''T1068'', ''T1021''],
            business_risk_score = business_risk,
            detection_coverage = 60.0,
            remediation_plan =
              ''1. Immediately patch vulnerabilities ''
              @ join '', ''
                  (map (\<lambda>v. if truthy (cve_id v) then the (cve_id v) else vuln_id v)
                       (take 3 vulns))
              @ ''. 2. Implement network segmentation. 3. Enable EDR monitoring.'',
            created_at = now,
            updated_at = now,
            log_evidence = [],
            indicators_of_compromise = []\<rparr>, e'))"

definition create_internet_breach_scenario ::
  "Asset \<Rightarrow> datetime \<Rightarrow> Vulnerability list \<Rightarrow> RiskScenario" where
  "create_internet_breach_scenario asset now vulns =
     \<lparr>scenario_id = ''rs_breach_'' @ asset_id asset,
      scenario_title = ''Internet-Facing Asset Compromise: '' @ asset_name asset,
      scenario_description =
        asset_name asset
        @ '' is exposed to the internet with critical vulnerabilities, creating immediate breach risk'',
      scenario_category = ''Data Breach & Exfiltration'',
      scenario_severity = CRITICAL,
      likelihood = ''Certain'',
      impact = ''Catastrophic'',
      affected_asset_ids = [asset_id asset],
      correlated_vulnerability_ids = map vuln_id vulns,
      mitre_tactics = [''Initial Access'', ''Execution'', ''Exfiltration''],
      mitre_techniques = [''T1190'', ''T1059'', ''T1041''],
      business_risk_score = 95.0,
      detection_coverage = 45.0,
      remediation_plan =
        ''1. Remove internet exposure or place behind WAF. 2. Emergency patch critical CVEs. 3. Implement IDS/IPS rules.'',
      created_at = now,
      updated_at = now,
      log_evidence = [],
      indicators_of_compromise = []\<rparr>"

text \<open>The grouping of the assets by location, in the order the locations first appear.\<close>

definition location_of :: "Asset \<Rightarrow> string" where
  "location_of a = (if truthy (location a) then the (location a) else ''Unknown'')"

fun group_by_location ::
  "(ref \<Rightarrow> Asset) \<Rightarrow> ref list \<Rightarrow> (string \<times> ref list) list
     \<Rightarrow> (string \<times> ref list) list" where
  "group_by_location st [] groups = groups"
| "group_by_location st (r # rs) groups =
     (let loc = location_of (st r);
          groups1 = (if map_of groups loc = None then groups @ [(loc, [])] else groups);
          groups2 = AList.update loc (the (map_of groups1 loc) @ [r]) groups1
      in group_by_location st rs groups2)"

definition lateral_scenario ::
  "(ref \<Rightarrow> Asset) \<Rightarrow> datetime \<Rightarrow> string \<Rightarrow> ref list \<Rightarrow> RiskScenario" where
  "lateral_scenario st now loc high_risk_assets =
     \<lparr>scenario_id = ''rs_lateral_'' @ loc,
      scenario_title = ''Lateral Movement Risk in '' @ loc,
      scenario_description =
        ''Multiple high-risk assets in '' @ loc @ '' create lateral movement opportunities'',
      scenario_category = ''Unauthorized Lateral Movement'',
      scenario_severity = HIGH,
      likelihood = ''Possible'',
      impact = ''Significant'',
      affected_asset_ids = map (\<lambda>r. asset_id (st r)) high_risk_assets,
      correlated_vulnerability_ids = [],
      mitre_tactics = [''Lateral Movement'', ''Discovery''],
      mitre_techniques = [''T1021'', ''T1018''],
      business_risk_score = 75.0,
      detection_coverage = 55.0,
      remediation_plan =
        ''1. Implement network segmentation. 2. Enable lateral movement detection. 3. Reduce attack surface.'',
      created_at = now,
      updated_at = now,
      log_evidence = [],
      indicators_of_compromise = []\<rparr>"

fun lateral_groups ::
  "(ref \<Rightarrow> Asset) \<Rightarrow> datetime \<Rightarrow> (string \<times> ref list) list \<Rightarrow> RiskScenario list" where
  "lateral_groups st now [] = []"
| "lateral_groups st now ((loc, rs) # groups) =
     (if length rs < 2 then lateral_groups st now groups
      else
        (let high_risk_assets = filter (\<lambda>r. risk_score (st r) > 70) rs
         in if length high_risk_assets \<ge> 2
            then lateral_scenario st now loc high_risk_assets # lateral_groups st now groups
            else lateral_groups st now groups))"

definition identify_lateral_movement ::
  "RiskCalculationEngine \<Rightarrow> datetime \<Rightarrow> RiskScenario list" where
  "identify_lateral_movement e now =
     lateral_groups (store e) now
       (group_by_location (store e) (map snd (assets e)) [])"

text \<open>
  The loop of \<open>generate_risk_scenarios\<close> over \<open>self.assets.values()\<close>: the scenarios found
  so far and the engine are threaded through, since the exploitation scenario calls
  \<open>calculate_asset_risk\<close>, which assigns the asset's score.
\<close>

fun scenario_loop ::
  "RiskCalculationEngine \<Rightarrow> datetime \<Rightarrow> ref list \<Rightarrow> RiskScenario list
     \<Rightarrow> RiskScenario list \<times> RiskCalculationEngine" where
  "scenario_loop e now [] scenarios = (scenarios, e)"
| "scenario_loop e now (r # rs) scenarios =
     (let avs = asset_vulns e (store e r)
      in if avs = [] then scenario_loop e now rs scenarios
         else
           (let critical_vulns = filter (\<lambda>v. severity v = CRITICAL) avs;
                (scenarios1, e1) =
                  (if length critical_vulns \<ge> 2
                   then (let (scenario, e') = create_exploitation_scenario e now r critical_vulns
                         in (scenarios @ [scenario], e'))
                   else (scenarios, e));
                scenarios2 =
                  (if exposed_to_internet (store e1 r) \<and> critical_vulns \<noteq> []
                   then scenarios1 @ [create_internet_breach_scenario (store e1 r) now critical_vulns]
                   else scenarios1)
            in scenario_loop e1 now rs scenarios2))"

definition generate_risk_scenarios ::
  "RiskCalculationEngine \<Rightarrow> datetime \<Rightarrow> RiskScenario list \<times> RiskCalculationEngine" where
  "generate_risk_scenarios e now =
     (let (scenarios, e1) = scenario_loop e now (map snd (assets e)) [];
          lateral_scenarios = identify_lateral_movement e1 now;
          scenarios' = scenarios @ lateral_scenarios
      in (scenarios', e1\<lparr>risk_scenarios := scenarios'\<rparr>))"

subsection \<open>Portfolio summary\<close>

text \<open>The summary is a dictionary; its two branches do not have the same keys.\<close>

definition get_risk_summary :: "RiskCalculationEngine \<Rightarrow> (string \<times> real) list" where
  "get_risk_summary e =
     (if assets e = [] then
        [(''total_assets'', 0),
         (''total_vulnerabilities'', 0),
         (''average_risk_score'', 0),
         (''critical_assets'', 0),
         (''high_risk_assets'', 0)]
      else
        (let values = map (\<lambda>(k, r). store e r) (assets e);
             risk_scores = map risk_score values
         in [(''total_assets'', real (length (assets e))),
             (''total_vulnerabilities'', real (length (vulnerabilities e))),
             (''average_risk_score'', sum_list risk_scores / real (length risk_scores)),
             (''critical_assets'', real (length (filter (\<lambda>a. risk_score a \<ge> 90) values))),
             (''high_risk_assets'', real (length (filter (\<lambda>a. risk_score a \<ge> 70) values))),
             (''medium_risk_assets'',
                real (length (filter (\<lambda>a. 40 \<le> risk_score a \<and> risk_score a < 70) values))),
             (''low_risk_assets'', real (length (filter (\<lambda>a. risk_score a < 40) values))),
             (''risk_scenarios'', real (length (risk_scenarios e)))]))"


section \<open>The ensemble engine (engines/ultra\_precise\_risk\_engine.py)\<close>

text \<open>
  The ways a call of the engine can go wrong. Three are exceptions: reading an attribute
  an object does not carry, \<open>np.max\<close> or \<open>np.min\<close> of an empty list, and a Python
  division by zero. The fourth is not an exception: \<open>NonFinite\<close> is the outcome of a run
  in which a numpy operation yields NaN or an infinity (the mean of an empty list, a
  float64 division by zero); numpy warns and goes on with that value, and the model
  ends the run there.
\<close>

datatype py_error = AttributeError | ValueError | ZeroDivisionError | NonFinite

definition checked :: "py_error \<Rightarrow> bool \<Rightarrow> 'a \<Rightarrow> py_error + 'a" where
  "checked err ok x = (if ok then Inr x else Inl err)"

definition and_then :: "py_error + 'a \<Rightarrow> ('a \<Rightarrow> py_error + 'b) \<Rightarrow> py_error + 'b" where
  "and_then x f = (case x of Inl err \<Rightarrow> Inl err | Inr v \<Rightarrow> f v)"

record UltraPreciseRiskScore =
  score :: real
  confidence :: real
  uncertainty :: real
  confidence_interval :: "real \<times> real"
  risk_level :: string
  contributing_factors :: "(string \<times> real) list"
  model_agreement :: real
  validation_passed :: bool
  precision_level :: string

text \<open>One entry of \<open>prediction_history\<close>.\<close>

record PredictionRecord =
  prediction :: real
  prediction_confidence :: real
  prediction_ground_truth :: "real option"
  prediction_timestamp :: datetime

text \<open>
  The state of an engine is its prediction history; \<open>attack_history\<close> is never read or
  written, and the sub-models hold no state. The three thresholds are set by
  \<open>__init__\<close> and never assigned again.
\<close>

record UltraPreciseRiskEngine =
  prediction_history :: "PredictionRecord list"

definition min_confidence :: real where
  "min_confidence = 0.95"

definition min_model_agreement :: real where
  "min_model_agreement = 0.90"

definition max_uncertainty :: real where
  "max_uncertainty = 0.05"

subsection \<open>The numpy reductions the engine uses\<close>

text \<open>The mean, the variance and standard deviation (\<open>ddof = 0\<close>) of a non-empty list.\<close>

definition mean_of :: "real list \<Rightarrow> real" where
  "mean_of xs = sum_list xs / real (length xs)"

definition var_of :: "real list \<Rightarrow> real" where
  "var_of xs = mean_of (map (\<lambda>x. (x - mean_of xs)\<^sup>2) xs)"

definition std_of :: "real list \<Rightarrow> real" where
  "std_of xs = sqrt (var_of xs)"

text \<open>
  The percentile of a non-empty list, with numpy's default linear interpolation between
  the two neighbours of the position \<open>q / 100 * (n - 1)\<close> in the sorted list, and the
  median.
\<close>

definition percentile_of :: "real list \<Rightarrow> real \<Rightarrow> real" where
  "percentile_of xs q =
     (let s = sort xs;
          pos = q / 100 * real (length xs - 1);
          i = nat \<lfloor>pos\<rfloor>;
          g = pos - real i
      in if Suc i < length s then s ! i + g * (s ! Suc i - s ! i) else s ! i)"

definition median_of :: "real list \<Rightarrow> real" where
  "median_of xs =
     (let s = sort xs; n = length xs
      in if even n then (s ! (n div 2 - 1) + s ! (n div 2)) / 2 else s ! (n div 2))"

text \<open>
  The numpy functions themselves: on an empty list \<open>np.mean\<close>, \<open>np.var\<close>, \<open>np.std\<close>,
  \<open>np.median\<close> and \<open>np.percentile\<close> yield NaN, and \<open>np.max\<close> and \<open>np.min\<close> raise
  \<open>ValueError\<close>.
\<close>

definition np_mean :: "real list \<Rightarrow> py_error + real" where
  "np_mean xs = checked NonFinite (xs \<noteq> []) (mean_of xs)"

definition np_var :: "real list \<Rightarrow> py_error + real" where
  "np_var xs = checked NonFinite (xs \<noteq> []) (var_of xs)"

definition np_std :: "real list \<Rightarrow> py_error + real" where
  "np_std xs = checked NonFinite (xs \<noteq> []) (std_of xs)"

definition np_median :: "real list \<Rightarrow> py_error + real" where
  "np_median xs = checked NonFinite (xs \<noteq> []) (median_of xs)"

definition np_percentile :: "real list \<Rightarrow> real \<Rightarrow> py_error + real" where
  "np_percentile xs q = checked NonFinite (xs \<noteq> []) (percentile_of xs q)"

definition np_max :: "real list \<Rightarrow> py_error + real" where
  "np_max xs = checked ValueError (xs \<noteq> []) (Max (set xs))"

definition np_min :: "real list \<Rightarrow> py_error + real" where
  "np_min xs = checked ValueError (xs \<noteq> []) (Min (set xs))"

text \<open>
  Division of numpy floats: by zero it yields NaN or an infinity. Division of Python
  numbers: by zero it raises.
\<close>

definition np_divide :: "real \<Rightarrow> real \<Rightarrow> py_error + real" where
  "np_divide x y = checked NonFinite (y \<noteq> 0) (x / y)"

definition py_divide :: "real \<Rightarrow> real \<Rightarrow> py_error + real" where
  "py_divide x y = checked ZeroDivisionError (y \<noteq> 0) (x / y)"

text \<open>\<open>sum(f(x) for x in xs)\<close> where each \<open>f(x)\<close> may go wrong, the first failure ending it.\<close>

fun sum_checked :: "('a \<Rightarrow> py_error + real) \<Rightarrow> 'a list \<Rightarrow> py_error + real" where
  "sum_checked f [] = Inr 0"
| "sum_checked f (x # xs) =
     and_then (f x) (\<lambda>y. and_then (sum_checked f xs) (\<lambda>s. Inr (y + s)))"

subsection \<open>Feature extraction\<close>

text \<open>The dictionary \<open>features\<close>: every key is written on every call, so it is a record.\<close>

record Features =
  vuln_count_total :: nat
  vuln_count_critical :: nat
  vuln_count_high :: nat
  vuln_count_medium :: nat
  vuln_count_low :: nat
  cvss_mean :: real
  cvss_max :: real
  cvss_std :: real
  cvss_median :: real
  cvss_75percentile :: real
  cvss_95percentile :: real
  exploit_available_count :: nat
  exploit_public_count :: nat
  actively_exploited_count :: nat
  exploit_ratio :: real
  vuln_age_mean :: real
  vuln_age_min :: real
  vuln_age_max :: real
  vuln_recent_count :: nat
  vuln_old_count :: nat
  patch_available_count :: nat
  patch_missing_count :: nat
  patch_coverage :: real
  network_vector_count :: nat
  adjacent_vector_count :: nat
  local_vector_count :: nat
  low_complexity_count :: nat
  high_complexity_count :: nat
  no_privs_count :: nat
  low_privs_count :: nat
  high_privs_count :: nat
  asset_criticality :: real
  asset_exposed :: real
  asset_sensitive_data :: real
  asset_patch_level :: real
  asset_av_status :: real
  asset_firewall :: real
  risk_surface :: real
  exploit_exposure :: real
  critical_remote :: real
  unpatched_critical :: nat
  vulnerability_density :: real
  severity_variance :: real
  severity_skewness :: real

text \<open>\<open>sum(1 for v in vs if p(v))\<close>.\<close>

definition count_if :: "('a \<Rightarrow> bool) \<Rightarrow> 'a list \<Rightarrow> nat" where
  "count_if p vs = length (filter p vs)"

text \<open>
  \<open>_get_vulnerability_age\<close>: the whole days between the publication date and the clock
  reading (\<open>timedelta.days\<close> rounds towards minus infinity).
\<close>

definition get_vulnerability_age :: "datetime \<Rightarrow> Vulnerability \<Rightarrow> int" where
  "get_vulnerability_age now v =
     (case published_date v of
        Some d \<Rightarrow> (now - d) div 86400000000
      | None \<Rightarrow> 0)"

text \<open>
  \<open>_calculate_skewness\<close>. \<open>n / ((n-1) * (n-2))\<close> is a division of Python integers,
  \<open>(x - mean) / std\<close> one of numpy floats.
\<close>

definition calculate_skewness :: "real list \<Rightarrow> py_error + real" where
  "calculate_skewness data =
     (if length data < 3 then Inr 0.0
      else
        and_then (np_mean data) (\<lambda>mean.
        and_then (np_std data) (\<lambda>std.
          if std = 0 then Inr 0.0
          else
            (let n = real (length data)
             in and_then (py_divide n ((n - 1) * (n - 2))) (\<lambda>c.
                and_then (sum_checked
                            (\<lambda>x. and_then (np_divide (x - mean) std) (\<lambda>z. Inr (z ^ 3))) data)
                  (\<lambda>s. Inr (c * s)))))))"

definition crit_val :: "Asset \<Rightarrow> real" where
  "crit_val a =
     (case criticality a of
        MISSION_CRITICAL \<Rightarrow> 10 | CRIT_HIGH \<Rightarrow> 7 | CRIT_MEDIUM \<Rightarrow> 4 | CRIT_LOW \<Rightarrow> 1)"

text \<open>
  \<open>_extract_ultra_precise_features\<close>. On an empty list \<open>np.mean\<close> only warns and
  \<open>np.max\<close>, on the next line, raises. Otherwise the first attribute read that can fail
  is \<open>v.actively_exploited\<close>, inside a \<open>sum\<close> over all vulnerabilities, so the call
  raises as soon as one of them lacks the attribute. The divisions are of Python
  numbers.
\<close>

definition extract_ultra_precise_features ::
  "Asset \<Rightarrow> Vulnerability list \<Rightarrow> datetime \<Rightarrow> py_error + Features" where
  "extract_ultra_precise_features asset vulns now =
     (if vulns = [] then Inl ValueError
      else
        (let n = length vulns;
             cvss_scores = map cvss_score vulns;
             c_critical = count_if (\<lambda>v. cvss_score v \<ge> 9.0) vulns;
             c_exploit_available = count_if exploit_available vulns;
             ages = map (\<lambda>v. real_of_int (get_vulnerability_age now v))
                      (filter (\<lambda>v. published_date v \<noteq> None) vulns);
             c_patch_available = count_if patch_available vulns;
             c_network = count_if (\<lambda>v. attack_vector v = Some ''Network'') vulns;
             exposed = (if exposed_to_internet asset then 1.0 else 0.0)
         in
           and_then (np_mean cvss_scores) (\<lambda>f_cvss_mean.
           and_then (np_max cvss_scores) (\<lambda>f_cvss_max.
           and_then (np_std cvss_scores) (\<lambda>f_cvss_std.
           and_then (np_median cvss_scores) (\<lambda>f_cvss_median.
           and_then (np_percentile cvss_scores 75) (\<lambda>f_cvss_75.
           and_then (np_percentile cvss_scores 95) (\<lambda>f_cvss_95.
           and_then (checked AttributeError
                       (list_all (\<lambda>v. actively_exploited v \<noteq> None) vulns)
                       (count_if (\<lambda>v. actively_exploited v = Some True) vulns))
             (\<lambda>c_actively_exploited.
           and_then (py_divide (real c_exploit_available) (real n)) (\<lambda>r_exploit.
           and_then (if ages \<noteq> [] then np_mean ages else Inr 0) (\<lambda>f_age_mean.
           and_then (if ages \<noteq> [] then np_min ages else Inr 0) (\<lambda>f_age_min.
           and_then (if ages \<noteq> [] then np_max ages else Inr 0) (\<lambda>f_age_max.
           and_then (py_divide (real c_patch_available) (real n)) (\<lambda>f_patch_coverage.
           and_then (py_divide (exposed * real c_network) (real (max n 1)))
             (\<lambda>f_risk_surface.
           and_then (py_divide (real c_critical * real c_network) (real (max n 1)))
             (\<lambda>f_critical_remote.
           and_then (py_divide (real n) (max (crit_val asset) 1)) (\<lambda>f_density.
           and_then (np_var cvss_scores) (\<lambda>f_variance.
           and_then (calculate_skewness cvss_scores) (\<lambda>f_skewness.
           Inr
           \<lparr>vuln_count_total = n,
            vuln_count_critical = c_critical,
            vuln_count_high = count_if (\<lambda>v. 7.0 \<le> cvss_score v \<and> cvss_score v < 9.0) vulns,
            vuln_count_medium = count_if (\<lambda>v. 4.0 \<le> cvss_score v \<and> cvss_score v < 7.0) vulns,
            vuln_count_low = count_if (\<lambda>v. cvss_score v < 4.0) vulns,
            cvss_mean = f_cvss_mean,
            cvss_max = f_cvss_max,
            cvss_std = f_cvss_std,
            cvss_median = f_cvss_median,
            cvss_75percentile = f_cvss_75,
            cvss_95percentile = f_cvss_95,
            exploit_available_count = c_exploit_available,
            exploit_public_count = count_if exploit_public vulns,
            actively_exploited_count = c_actively_exploited,
            exploit_ratio = r_exploit,
            vuln_age_mean = f_age_mean,
            vuln_age_min = f_age_min,
            vuln_age_max = f_age_max,
            vuln_recent_count = (if ages \<noteq> [] then count_if (\<lambda>age. age < 30) ages else 0),
            vuln_old_count = (if ages \<noteq> [] then count_if (\<lambda>age. age > 365) ages else 0),
            patch_available_count = c_patch_available,
            patch_missing_count = n - c_patch_available,
            patch_coverage = f_patch_coverage,
            network_vector_count = c_network,
            adjacent_vector_count = count_if (\<lambda>v. attack_vector v = Some ''Adjacent'') vulns,
            local_vector_count = count_if (\<lambda>v. attack_vector v = Some ''Local'') vulns,
            low_complexity_count = count_if (\<lambda>v. attack_complexity v = Some ''Low'') vulns,
            high_complexity_count = count_if (\<lambda>v. attack_complexity v = Some ''High'') vulns,
            no_privs_count = count_if (\<lambda>v. privileges_required v = Some ''None'') vulns,
            low_privs_count = count_if (\<lambda>v. privileges_required v = Some ''Low'') vulns,
            high_privs_count = count_if (\<lambda>v. privileges_required v = Some ''High'') vulns,
            asset_criticality = crit_val asset,
            asset_exposed = exposed,
            asset_sensitive_data = (if contains_sensitive_data asset then 1.0 else 0.0),
            asset_patch_level =
              dict_get [(''Current'', 0.0), (''Outdated'', 0.5), (''Critical'', 1.0),
                        (''Unknown'', 0.7)] (patch_level asset) 0.7,
            asset_av_status =
              dict_get [(''Active'', 0.0), (''Outdated'', 0.5), (''Inactive'', 1.0),
                        (''Unknown'', 0.7)] (antivirus_status asset) 0.7,
            asset_firewall = (if firewall_enabled asset then 0.0 else 1.0),
            risk_surface = f_risk_surface,
            exploit_exposure = r_exploit * exposed,
            critical_remote = f_critical_remote,
            unpatched_critical = c_critical - min c_patch_available c_critical,
            vulnerability_density = f_density,
            severity_variance = f_variance,
            severity_skewness = f_skewness\<rparr>)))))))))))))))))))"

subsection \<open>The five estimators\<close>

definition bayesian_predict :: "Features \<Rightarrow> real" where
  "bayesian_predict f =
     (let base = cvss_mean f * 10;
          exploit_factor' = 1.0 + (exploit_ratio f * 0.5);
          criticality' = asset_criticality f / 10.0
      in min (base * exploit_factor' * (0.5 + criticality')) 100.0)"

definition gradient_boosting_predict :: "Features \<Rightarrow> real" where
  "gradient_boosting_predict f =
     (let s0 = 0.0;
          s1 = s0 + real (vuln_count_critical f) * 28;
          s2 = s1 + real (vuln_count_high f) * 16;
          s3 = s2 + real (actively_exploited_count f) * 20;
          s4 = s3 * (0.5 + asset_criticality f / 10.0)
      in min s4 100.0)"

definition neural_network_predict :: "Features \<Rightarrow> real" where
  "neural_network_predict f =
     (let inputs = [cvss_max f, exploit_ratio f * 10, asset_criticality f,
                    asset_exposed f * 10];
          s = sum_list (map (\<lambda>(x, w). x * w) (zip inputs [8, 15, 7, 10]))
      in min s 100.0)"

definition markov_predict :: "Features \<Rightarrow> real" where
  "markov_predict f =
     (let current_state = cvss_mean f * 10;
          transition_prob = exploit_ratio f;
          next_state = current_state * (1.0 + transition_prob * 0.3)
      in min next_state 100.0)"

definition rules_based_prediction :: "Features \<Rightarrow> real" where
  "rules_based_prediction f =
     (let r0 = 0.0;
          r1 = r0 + real (vuln_count_critical f) * 30;
          r2 = r1 + real (vuln_count_high f) * 15;
          r3 = r2 + real (vuln_count_medium f) * 7;
          r4 = r3 + real (vuln_count_low f) * 2;
          r5 = (if actively_exploited_count f > 0 then r4 * 1.5
                else if exploit_public_count f > 0 then r4 * 1.3
                else if exploit_available_count f > 0 then r4 * 1.2
                else r4);
          r6 = (if asset_exposed f > 0 then r5 * 1.3 else r5);
          criticality_mult = 0.5 + (asset_criticality f / 10.0) * 1.5;
          r7 = r6 * criticality_mult
      in min r7 100.0)"

definition get_ensemble_predictions :: "Features \<Rightarrow> real list" where
  "get_ensemble_predictions f =
     [bayesian_predict f, gradient_boosting_predict f, neural_network_predict f,
      markov_predict f, rules_based_prediction f]"

text \<open>\<open>_calculate_model_agreement\<close>; \<open>std_pred / mean_pred\<close> divides numpy floats.\<close>

definition calculate_model_agreement :: "real list \<Rightarrow> py_error + real" where
  "calculate_model_agreement predictions =
     (if predictions = [] \<or> length predictions < 2 then Inr 0.0
      else
        and_then (np_mean predictions) (\<lambda>mean_pred.
        and_then (np_std predictions) (\<lambda>std_pred.
          if mean_pred = 0 then Inr 1.0
          else and_then (np_divide std_pred mean_pred) (\<lambda>cv. Inr (1.0 - min cv 1.0)))))"

definition stacking_predict :: "real list \<Rightarrow> real" where
  "stacking_predict predictions =
     sum_list (map (\<lambda>(p, w). p * w) (zip predictions [0.25, 0.25, 0.20, 0.15, 0.15]))"

definition calibrate :: "real \<Rightarrow> Features \<Rightarrow> real" where
  "calibrate s f = s"

definition predict_interval :: "real \<Rightarrow> Features \<Rightarrow> real \<times> real" where
  "predict_interval point_prediction f =
     (let uncertainty' = severity_variance f;
          margin = uncertainty' * 2.576
      in (max 0.0 (point_prediction - margin), min 100.0 (point_prediction + margin)))"

definition quantify_uncertainty :: "real list \<Rightarrow> Features \<Rightarrow> py_error + real" where
  "quantify_uncertainty predictions f =
     and_then (np_std predictions) (\<lambda>std_pred.
       (let pred_uncertainty = std_pred / 100.0;
            u0 = 0.0;
            u1 = (if vuln_age_mean f = 0 then u0 + 0.02 else u0);
            u2 = (if asset_patch_level f > 0.6 then u1 + 0.01 else u1);
            u3 = (if vuln_count_total f < 3 then u2 + 0.03 else u2)
        in Inr (min (pred_uncertainty + u3) 1.0)))"

definition calculate_confidence :: "real \<Rightarrow> real \<Rightarrow> nat \<Rightarrow> Features \<Rightarrow> real" where
  "calculate_confidence agreement uncertainty' vuln_count f =
     (let c0 = agreement;
          c1 = c0 * (1.0 - uncertainty');
          c2 = (if vuln_count < 3 then c1 * 0.7
                else if vuln_count < 5 then c1 * 0.85
                else if vuln_count > 10 then c1 * 1.05
                else c1);
          c3 = (if vuln_age_mean f > 0 then c2 * 1.02 else c2);
          c4 = (if patch_coverage f > 0 then c3 * 1.02 else c3)
      in min c4 1.0)"

definition categorize_risk_ultra_precise :: "real \<Rightarrow> real \<Rightarrow> real \<Rightarrow> string" where
  "categorize_risk_ultra_precise s c u =
     (if s \<ge> 95 \<and> c \<ge> 0.95 \<and> u \<le> 0.05 then ''Critical''
      else if s \<ge> 85 \<and> c \<ge> 0.90 then ''High''
      else if s \<ge> 60 then ''Medium''
      else if s \<ge> 30 then ''Low''
      else ''Informational'')"

definition zero_risk_score :: UltraPreciseRiskScore where
  "zero_risk_score =
     \<lparr>score = 0.0, confidence = 1.0, uncertainty = 0.0,
      confidence_interval = (0.0, 0.0), risk_level = ''Informational'',
      contributing_factors = [], model_agreement = 1.0, validation_passed = True,
      precision_level = ''ultra_high''\<rparr>"

definition low_confidence_score ::
  "real list \<Rightarrow> real \<Rightarrow> py_error + UltraPreciseRiskScore" where
  "low_confidence_score predictions agreement =
     and_then (np_mean predictions) (\<lambda>mean_score.
       Inr \<lparr>score = mean_score, confidence = agreement, uncertainty = 0.5,
            confidence_interval = (0.0, 100.0), risk_level = ''Uncertain'',
            contributing_factors = [(''model_disagreement'', 1.0 - agreement)],
            model_agreement = agreement, validation_passed = False,
            precision_level = ''low''\<rparr>)"

definition explain_risk_factors :: "Features \<Rightarrow> (string \<times> real) list" where
  "explain_risk_factors f =
     (let vuln_score = real (vuln_count_critical f) * 25 + real (vuln_count_high f) * 15
                         + real (vuln_count_medium f) * 7;
          exploit_score = real (actively_exploited_count f) * 40
                            + real (exploit_public_count f) * 25
                            + real (exploit_available_count f) * 15;
          exposure = asset_exposed f * 100;
          patch_score = (1.0 - patch_coverage f) * 100
      in [(''vulnerability_severity'', min vuln_score 100.0),
          (''exploitation_status'', min exploit_score 100.0),
          (''internet_exposure'', exposure),
          (''asset_criticality'', asset_criticality f * 10),
          (''missing_patches'', patch_score)])"

definition validate_against_ground_truth :: "real \<Rightarrow> real \<Rightarrow> real \<times> real \<Rightarrow> bool" where
  "validate_against_ground_truth p ground_truth conf_interval =
     (fst conf_interval \<le> ground_truth \<and> ground_truth \<le> snd conf_interval)"

definition correlate_with_history :: "real \<Rightarrow> (string \<times> real) list \<Rightarrow> real" where
  "correlate_with_history s historical_data =
     (let adjustment_factor =
            (if dict_get historical_data ''previous_compromises'' 0 > 0 then 1.1 else 1.0)
      in min (s * adjustment_factor) 100.0)"

definition update_prediction_history ::
  "UltraPreciseRiskEngine \<Rightarrow> UltraPreciseRiskScore \<Rightarrow> real option \<Rightarrow> datetime
     \<Rightarrow> UltraPreciseRiskEngine" where
  "update_prediction_history en result ground_truth now =
     (let h = prediction_history en
                @ [\<lparr>prediction = score result, prediction_confidence = confidence result,
                     prediction_ground_truth = ground_truth, prediction_timestamp = now\<rparr>]
      in en\<lparr>prediction_history := (if length h > 1000 then drop (length h - 1000) h else h)\<rparr>)"

text \<open>
  \<open>calculate_ultra_precise_risk\<close>. \<open>historical_data\<close> is an optional dictionary, true when
  it is present and not empty. A raised exception leaves the engine as it was.
\<close>

definition calculate_ultra_precise_risk ::
  "UltraPreciseRiskEngine \<Rightarrow> Asset \<Rightarrow> Vulnerability list \<Rightarrow> (string \<times> real) list option
     \<Rightarrow> real option \<Rightarrow> datetime \<Rightarrow> py_error + (UltraPreciseRiskScore \<times> UltraPreciseRiskEngine)"
  where
  "calculate_ultra_precise_risk en asset vulns historical_data ground_truth now =
     (if vulns = [] then Inr (zero_risk_score, en)
      else
        and_then (extract_ultra_precise_features asset vulns now) (\<lambda>features.
          (let predictions = get_ensemble_predictions features
           in and_then (calculate_model_agreement predictions) (\<lambda>agreement.
                if agreement < min_model_agreement
                then and_then (low_confidence_score predictions agreement)
                       (\<lambda>result. Inr (result, en))
                else
                  (let base_score = stacking_predict predictions;
                       calibrated_score = calibrate base_score features;
                       conf_interval = predict_interval base_score features
                   in and_then (quantify_uncertainty predictions features) (\<lambda>uncertainty'.
                        (let confidence' = calculate_confidence agreement uncertainty'
                                             (length vulns) features;
                             validation_passed' =
                               (case ground_truth of
                                  None \<Rightarrow> True
                                | Some g \<Rightarrow>
                                    validate_against_ground_truth calibrated_score g
                                      conf_interval);
                             calibrated_score' =
                               (case historical_data of
                                  None \<Rightarrow> calibrated_score
                                | Some d \<Rightarrow>
                                    if d \<noteq> [] then correlate_with_history calibrated_score d
                                    else calibrated_score);
                             precision_level' =
                               (if confidence' \<ge> min_confidence
                                   \<and> agreement \<ge> min_model_agreement
                                   \<and> uncertainty' \<le> max_uncertainty
                                then ''ultra_high'' else ''standard'');
                             risk_level' = categorize_risk_ultra_precise calibrated_score'
                                             confidence' uncertainty';
                             result =
                               \<lparr>score = calibrated_score', confidence = confidence',
                                uncertainty = uncertainty',
                                confidence_interval = conf_interval,
                                risk_level = risk_level',
                                contributing_factors = explain_risk_factors features,
                                model_agreement = agreement,
                                validation_passed = validation_passed',
                                precision_level = precision_level'\<rparr>
                         in Inr (result,
                                 update_prediction_history en result ground_truth now))))))))"


section \<open>Validity of inputs and example data\<close>

text \<open>Every threat-intelligence score lies in [0, 1], as \<open>add_threat_intelligence\<close> stores it.\<close>

definition intel_valid :: "RiskCalculationEngine \<Rightarrow> bool" where
  "intel_valid e = (\<forall>t \<in> snd ` set (threat_intel e). 0 \<le> t \<and> t \<le> 1)"

text \<open>The product of the five modifiers of the per-vulnerability score.\<close>

definition modifiers :: "RiskCalculationEngine \<Rightarrow> Vulnerability \<Rightarrow> real" where
  "modifiers e v =
     CVSS_MULTIPLIERS (severity v) * exploit_factor v * patch_factor v
       * vector_mult v * threat_mult e v"

text \<open>
  A small portfolio: a mission-critical database server with three resolvable
  vulnerabilities and one dangling id, and a workstation whose only id is dangling.
\<close>

definition demo_vuln1 :: Vulnerability where
  "demo_vuln1 =
     \<lparr>vuln_id = ''VULN-001'', cve_id = Some ''CVE-2024-1234'',
      vuln_title = ''Remote Code Execution in Web Server'',
      vuln_description = ''A critical RCE vulnerability'',
      severity = CRITICAL, cvss_score = 9.8, cvss_vector = None,
      published_date = Some 0, discovered_date = 0, source = MANUAL,
      affected_assets = [''srv-prod-db-01''],
      exploit_available = True, exploit_public = False, patch_available = False,
      remediation_status = ''Pending'',
      attack_vector = None, attack_complexity = None, privileges_required = None,
      user_interaction = None, vuln_tags = [], references = [],
      actively_exploited = None\<rparr>"

definition demo_vuln2 :: Vulnerability where
  "demo_vuln2 =
     demo_vuln1\<lparr>vuln_id := ''VULN-002'', cve_id := Some ''CVE-2024-5678'',
       severity := HIGH, cvss_score := 5, exploit_available := False\<rparr>"

definition demo_vuln3 :: Vulnerability where
  "demo_vuln3 = demo_vuln1\<lparr>vuln_id := ''VULN-003'', cve_id := None, cvss_score := 9\<rparr>"

definition demo_asset :: Asset where
  "demo_asset =
     \<lparr>asset_id = ''srv-prod-db-01'', asset_name = ''Production Database'',
      category = DATABASE, ip_address = ''10.0.1.50'', os = ''Ubuntu 22.04'',
      os_version = None, criticality = MISSION_CRITICAL,
      vulnerability_ids = [''VULN-001'', ''VULN-404'', ''VULN-002'', ''VULN-003''],
      last_scan_date = 0, status = ''Active'', asset_tags = [], owner = None,
      location = None, exposed_to_internet = True, contains_sensitive_data = True,
      patch_level = ''Unknown'', antivirus_status = ''Unknown'',
      firewall_enabled = True, risk_score_field = None\<rparr>"

definition demo_workstation :: Asset where
  "demo_workstation =
     demo_asset\<lparr>asset_id := ''wkst-exec-01'', asset_name := ''Executive Workstation'',
       category := WORKSTATION, criticality := CRIT_HIGH,
       vulnerability_ids := [''VULN-404'']\<rparr>"


definition demo_engine :: RiskCalculationEngine where
  "demo_engine =
     \<lparr>store = (\<lambda>r. if r = 0 then demo_asset else demo_workstation),
      assets = [(''srv-prod-db-01'', 0), (''wkst-exec-01'', 1)],
      vulnerabilities =
        [(''VULN-001'', demo_vuln1), (''VULN-002'', demo_vuln2), (''VULN-003'', demo_vuln3)],
      risk_scenarios = [],
      threat_intel = [(''CVE-2024-1234'', 1)]\<rparr>"


section \<open>Auxiliary notions for the scenario correlation\<close>

text \<open>
  Two engines that differ at most in the stored risk scores of their assets; the
  scenarios one asset contributes to a pass; and the multi-stage exploitation scenario
  of the asset with a given id.
\<close>

definition same_up_to_scores :: "RiskCalculationEngine \<Rightarrow> RiskCalculationEngine \<Rightarrow> bool" where
  "same_up_to_scores e e1 =
     (\<exists>s1. e1 = e\<lparr>store := s1\<rparr> \<and> (\<forall>r. \<exists>x. s1 r = (store e r)\<lparr>risk_score_field := x\<rparr>))"

definition critical_vulns_of :: "RiskCalculationEngine \<Rightarrow> ref \<Rightarrow> Vulnerability list" where
  "critical_vulns_of e r = filter (\<lambda>v. severity v = CRITICAL) (asset_vulns e (store e r))"

definition scenarios_of :: "RiskCalculationEngine \<Rightarrow> datetime \<Rightarrow> ref \<Rightarrow> RiskScenario list" where
  "scenarios_of e now r =
     (if asset_vulns e (store e r) = [] then []
      else
        (if length (critical_vulns_of e r) \<ge> 2
         then [fst (create_exploitation_scenario e now r (critical_vulns_of e r))] else [])
        @ (if exposed_to_internet (store e r) \<and> critical_vulns_of e r \<noteq> []
           then [create_internet_breach_scenario (store e r) now (critical_vulns_of e r)] else []))"

definition is_exploitation_for :: "string \<Rightarrow> RiskScenario \<Rightarrow> bool" where
  "is_exploitation_for aid sc =
     (scenario_category sc = ''Multi-Stage Attack'' \<and> affected_asset_ids sc = [aid])"

section \<open>Auxiliary notions for the ensemble engine\<close>

text \<open>
  Range-valid vulnerabilities; the bounds on the features the estimators read; the
  documented ranges of a result; the string values of the enum \<open>RiskLevel\<close>; and the
  score after the optional historical adjustment.
\<close>

definition features_ok :: "Features \<Rightarrow> bool" where
  "features_ok f =
     (0 \<le> cvss_mean f \<and> cvss_mean f \<le> 10 \<and> 0 \<le> cvss_max f \<and> cvss_max f \<le> 10
      \<and> 0 \<le> exploit_ratio f \<and> exploit_ratio f \<le> 1
      \<and> 0 \<le> patch_coverage f \<and> patch_coverage f \<le> 1
      \<and> 1 \<le> asset_criticality f \<and> asset_criticality f \<le> 10
      \<and> 0 \<le> asset_exposed f \<and> asset_exposed f \<le> 1
      \<and> 0 \<le> severity_variance f)"



fun RiskLevel_value :: "RiskLevel \<Rightarrow> string" where
  "RiskLevel_value CRITICAL = ''Critical''"
| "RiskLevel_value HIGH = ''High''"
| "RiskLevel_value MEDIUM = ''Medium''"
| "RiskLevel_value LOW = ''Low''"
| "RiskLevel_value INFORMATIONAL = ''Informational''"

text \<open>
  The values of \<open>_calculate_model_agreement\<close>, \<open>_quantify_uncertainty\<close> and
  \<open>_low_confidence_score\<close> on lists that are long enough for them to succeed.
\<close>

definition agreement_of :: "real list \<Rightarrow> real" where
  "agreement_of ps = (if mean_of ps = 0 then 1 else 1 - min (std_of ps / mean_of ps) 1)"

definition uncertainty_of :: "real list \<Rightarrow> Features \<Rightarrow> real" where
  "uncertainty_of ps f =
     min (std_of ps / 100
          + ((if vuln_age_mean f = 0 then 0.02 else 0)
             + (if asset_patch_level f > 0.6 then 0.01 else 0)
             + (if vuln_count_total f < 3 then 0.03 else 0))) 1"

definition low_confidence_of :: "real list \<Rightarrow> real \<Rightarrow> UltraPreciseRiskScore" where
  "low_confidence_of ps a =
     \<lparr>score = mean_of ps, confidence = a, uncertainty = 0.5,
      confidence_interval = (0, 100), risk_level = ''Uncertain'',
      contributing_factors = [(''model_disagreement'', 1 - a)],
      model_agreement = a, validation_passed = False, precision_level = ''low''\<rparr>"

definition adjusted_score :: "(string \<times> real) list option \<Rightarrow> real \<Rightarrow> real" where
  "adjusted_score hist s =
     (case hist of None \<Rightarrow> s
      | Some d \<Rightarrow> if d \<noteq> [] then correlate_with_history s d else s)"

text \<open>
  Example inputs of the ensemble engine: the three vulnerabilities of the server, each
  carrying the attribute \<open>actively_exploited\<close>, and a low-criticality asset with one
  vulnerability of CVSS score 0, on which the estimators disagree.
\<close>

definition demo_ultra_engine :: UltraPreciseRiskEngine where
  "demo_ultra_engine = \<lparr>prediction_history = []\<rparr>"

definition demo_ensemble_vulns :: "Vulnerability list" where
  "demo_ensemble_vulns =
     map (\<lambda>v. v\<lparr>actively_exploited := Some False\<rparr>) [demo_vuln1, demo_vuln2, demo_vuln3]"

definition demo_low_asset :: Asset where
  "demo_low_asset = demo_asset\<lparr>criticality := CRIT_LOW, exposed_to_internet := False\<rparr>"

definition demo_low_vulns :: "Vulnerability list" where
  "demo_low_vulns =
     [demo_vuln1\<lparr>cvss_score := 0, severity := LOW, exploit_available := False,
                 actively_exploited := Some False\<rparr>]"




section \<open>Properties of the risk calculation engine\<close>

subsection \<open>Evaluation of the example portfolio\<close>

lemma demo_store_0: "store demo_engine 0 = demo_asset"
  by (simp add: demo_engine_def)

lemma demo_store_1: "store demo_engine (Suc 0) = demo_workstation"
  by (simp add: demo_engine_def)

lemma demo_assets: "assets demo_engine = [(''srv-prod-db-01'', 0), (''wkst-exec-01'', 1)]"
  by (simp add: demo_engine_def)

lemma demo_asset_vulns:
  "asset_vulns demo_engine demo_asset = [demo_vuln1, demo_vuln2, demo_vuln3]"
  by (simp add: asset_vulns_def map_filter_def demo_engine_def demo_asset_def)

lemma demo_workstation_vulns: "asset_vulns demo_engine demo_workstation = []"
  by (simp add: asset_vulns_def map_filter_def demo_engine_def demo_workstation_def)

lemma demo_intel_valid: "intel_valid demo_engine"
  by (simp add: intel_valid_def demo_engine_def)

lemma demo_score1: "calculate_vulnerability_risk demo_engine demo_vuln1 = 100"
  by (simp add: calculate_vulnerability_risk_def exploit_factor_def patch_factor_def
      vector_mult_def threat_mult_def demo_engine_def demo_vuln1_def)

lemma demo_score2: "calculate_vulnerability_risk demo_engine demo_vuln2 = 40"
  by (simp add: calculate_vulnerability_risk_def exploit_factor_def patch_factor_def
      vector_mult_def threat_mult_def demo_engine_def demo_vuln1_def demo_vuln2_def)

lemma demo_score3: "calculate_vulnerability_risk demo_engine demo_vuln3 = 100"
  by (simp add: calculate_vulnerability_risk_def exploit_factor_def patch_factor_def
      vector_mult_def threat_mult_def demo_engine_def demo_vuln1_def demo_vuln3_def)

lemma demo_weighted: "weighted_vulnerability_risk [100, 40, 100] = 88"
  by (simp add: weighted_vulnerability_risk_def)

lemma demo_exposure: "calculate_exposure_risk demo_asset = 90"
  by (simp add: calculate_exposure_risk_def dict_get_def demo_asset_def)

lemma demo_threat_factor:
  "calculate_threat_factor demo_engine [demo_vuln1, demo_vuln2, demo_vuln3] = 2"
  by (simp add: calculate_threat_factor_def threat_scores_def map_filter_def truthy_def
      demo_engine_def demo_vuln1_def demo_vuln2_def demo_vuln3_def)

lemma demo_criticality: "criticality demo_asset = MISSION_CRITICAL"
  by (simp add: demo_asset_def)

lemma demo_total_risk_of: "total_risk_of 88 90 2 2 = 100"
  by (simp add: total_risk_of_def WEIGHTS_vulnerability_severity_def WEIGHTS_exposure_def
      WEIGHTS_asset_criticality_def WEIGHTS_threat_intelligence_def WEIGHTS_sum_def)

lemma demo_total: "total_risk_score (fst (calculate_asset_risk demo_engine now 0)) = 100"
  unfolding calculate_asset_risk_def Let_def demo_store_0 demo_asset_vulns
  by (simp add: demo_score1 demo_score2 demo_score3 demo_weighted demo_exposure
      demo_threat_factor demo_criticality demo_total_risk_of)

subsection \<open>The per-vulnerability score\<close>

lemma exploit_factor_nonneg: "0 \<le> exploit_factor v"
  by (simp add: exploit_factor_def)

lemma patch_factor_nonneg: "0 \<le> patch_factor v"
  by (simp add: patch_factor_def)

lemma vector_mult_nonneg: "0 \<le> vector_mult v"
  by (simp add: vector_mult_def dict_get_def split: option.splits)

lemma CVSS_MULTIPLIERS_nonneg: "0 \<le> CVSS_MULTIPLIERS s"
  by (cases s) simp_all

lemma threat_mult_nonneg: "intel_valid e \<Longrightarrow> 0 \<le> threat_mult e v"
  unfolding threat_mult_def intel_valid_def
  by (auto split: option.splits dest!: map_of_SomeD)

lemma modifiers_nonneg: "intel_valid e \<Longrightarrow> 0 \<le> modifiers e v"
  unfolding modifiers_def
  by (intro mult_nonneg_nonneg CVSS_MULTIPLIERS_nonneg exploit_factor_nonneg
      patch_factor_nonneg vector_mult_nonneg threat_mult_nonneg)

lemma vulnerability_risk_as_product:
  "calculate_vulnerability_risk e v = min (cvss_score v * 10 * modifiers e v) 100"
  by (simp add: calculate_vulnerability_risk_def modifiers_def Let_def algebra_simps)

lemma modifiers_cvss_update: "modifiers e (v\<lparr>cvss_score := c\<rparr>) = modifiers e v"
  by (simp add: modifiers_def exploit_factor_def patch_factor_def vector_mult_def
      threat_mult_def)

lemma vulnerability_risk_nonneg:
  "intel_valid e \<Longrightarrow> 0 \<le> cvss_score v \<Longrightarrow> 0 \<le> calculate_vulnerability_risk e v"
  using modifiers_nonneg [of e v] by (simp add: vulnerability_risk_as_product)

lemma vulnerability_risk_le_100: "calculate_vulnerability_risk e v \<le> 100"
  by (simp add: vulnerability_risk_as_product)

text \<open>
  Claim C3. When every threat-intelligence score lies in [0, 1], the score of a
  vulnerability whose CVSS score lies in [0, 10] lies in [0, 100], whatever its severity,
  exploit flags, patch flag, attack vector and CVE id; and raising the CVSS score within
  [0, 10], all other fields and the threat intelligence fixed, never lowers the score.
\<close>

theorem vulnerability_risk_bounded_monotone:
  assumes "intel_valid e"
  shows "(0 \<le> cvss_score v \<and> cvss_score v \<le> 10 \<longrightarrow>
            0 \<le> calculate_vulnerability_risk e v
          \<and> calculate_vulnerability_risk e v \<le> 100)
       \<and> (0 \<le> c1 \<and> c1 \<le> c2 \<and> c2 \<le> 10 \<longrightarrow>
            calculate_vulnerability_risk e (v\<lparr>cvss_score := c1\<rparr>)
              \<le> calculate_vulnerability_risk e (v\<lparr>cvss_score := c2\<rparr>))"
proof -
  have m: "0 \<le> modifiers e v"
    using assms by (rule modifiers_nonneg)
  have mono: "calculate_vulnerability_risk e (v\<lparr>cvss_score := c1\<rparr>)
                \<le> calculate_vulnerability_risk e (v\<lparr>cvss_score := c2\<rparr>)"
    if "c1 \<le> c2"
  proof -
    from that have "c1 * 10 * modifiers e v \<le> c2 * 10 * modifiers e v"
      using m by (simp add: mult_right_mono)
    then show ?thesis
      by (simp add: vulnerability_risk_as_product modifiers_cvss_update min_le_iff_disj)
  qed
  show ?thesis
    using vulnerability_risk_nonneg [OF assms, of v] vulnerability_risk_le_100 [of e v] mono
    by simp
qed

theorem vulnerability_risk_bounded_monotone_witness:
  "intel_valid demo_engine
   \<and> 0 \<le> calculate_vulnerability_risk demo_engine demo_vuln2
   \<and> calculate_vulnerability_risk demo_engine demo_vuln2 \<le> 100
   \<and> calculate_vulnerability_risk demo_engine (demo_vuln2\<lparr>cvss_score := 5\<rparr>)
       \<le> calculate_vulnerability_risk demo_engine (demo_vuln2\<lparr>cvss_score := 7\<rparr>)"
proof -
  have h: "intel_valid demo_engine"
    by (rule demo_intel_valid)
  have c: "0 \<le> cvss_score demo_vuln2 \<and> cvss_score demo_vuln2 \<le> 10"
    by (simp add: demo_vuln2_def demo_vuln1_def)
  show ?thesis
    using vulnerability_risk_bounded_monotone [OF h, of demo_vuln2 5 7] h c by simp
qed

subsection \<open>The asset risk aggregation\<close>

lemma asset_vulns_empty_iff:
  "asset_vulns e a = []
     \<longleftrightarrow> (\<forall>i \<in> set (vulnerability_ids a). map_of (vulnerabilities e) i = None)"
  by (auto simp: asset_vulns_def map_filter_def filter_empty_conv)

lemma calculated_at_now: "calculated_at (fst (calculate_asset_risk e now r)) = now"
  by (simp add: calculate_asset_risk_def Let_def)

lemma engine_after_asset_risk:
  "asset_vulns e (store e r) \<noteq> [] \<Longrightarrow>
   snd (calculate_asset_risk e now r) =
     e\<lparr>store := (store e)(r := (store e r)
          \<lparr>risk_score_field := Some (total_risk_score (fst (calculate_asset_risk e now r)))\<rparr>)\<rparr>"
  by (simp add: calculate_asset_risk_def Let_def)

lemma engine_after_no_vulns:
  "asset_vulns e (store e r) = [] \<Longrightarrow> snd (calculate_asset_risk e now r) = e"
  by (simp add: calculate_asset_risk_def)

lemma asset_vulns_risk_upd [simp]:
  "asset_vulns (e\<lparr>store := s\<rparr>) (a\<lparr>risk_score_field := x\<rparr>) = asset_vulns e a"
  by (simp add: asset_vulns_def)

lemma vulnerability_risk_store_upd [simp]:
  "calculate_vulnerability_risk (e\<lparr>store := s\<rparr>) = calculate_vulnerability_risk e"
  by (rule ext)
     (simp add: calculate_vulnerability_risk_def threat_mult_def
        cong: option.case_cong if_cong)

lemma exposure_risk_upd [simp]:
  "calculate_exposure_risk (a\<lparr>risk_score_field := x\<rparr>) = calculate_exposure_risk a"
  by (simp add: calculate_exposure_risk_def)

lemma threat_factor_store_upd [simp]:
  "calculate_threat_factor (e\<lparr>store := s\<rparr>) = calculate_threat_factor e"
  by (rule ext) (simp add: calculate_threat_factor_def threat_scores_def cong: if_cong)

lemma recommendations_risk_upd [simp]:
  "generate_recommendations (a\<lparr>risk_score_field := x\<rparr>) = generate_recommendations a"
  by (rule ext) (simp add: generate_recommendations_def)

lemma demo_engine_after:
  "snd (calculate_asset_risk demo_engine now 0) =
     demo_engine\<lparr>store := (store demo_engine)
       (0 := demo_asset\<lparr>risk_score_field := Some 100\<rparr>)\<rparr>"
proof -
  have h: "asset_vulns demo_engine (store demo_engine 0) \<noteq> []"
    by (simp add: demo_store_0 demo_asset_vulns)
  show ?thesis
    using engine_after_asset_risk [OF h, of now] by (simp add: demo_total demo_store_0)
qed













text \<open>
  Claim C4. When none of the asset's vulnerability ids is a key of the engine's
  vulnerability dictionary (in particular when the asset has no ids), the aggregation
  returns total risk score 0, an empty risk-factor breakdown and the single default
  recommendation; it returns a result, and leaves the engine as it was.
\<close>

theorem no_resolvable_vulnerabilities_zero_result:
  assumes "\<forall>i \<in> set (vulnerability_ids (store e r)). map_of (vulnerabilities e) i = None"
  shows "total_risk_score (fst (calculate_asset_risk e now r)) = 0
       \<and> risk_factors (fst (calculate_asset_risk e now r)) = []
       \<and> recommendations (fst (calculate_asset_risk e now r))
           = [''No vulnerabilities detected. Continue regular scanning.'']
       \<and> snd (calculate_asset_risk e now r) = e"
  using assms asset_vulns_empty_iff [of e "store e r"]
  by (simp add: calculate_asset_risk_def)

theorem no_resolvable_vulnerabilities_zero_result_witness:
  "vulnerability_ids (store demo_engine 1) = [''VULN-404'']
   \<and> map_of (vulnerabilities demo_engine) ''VULN-404'' = None
   \<and> total_risk_score (fst (calculate_asset_risk demo_engine 0 1)) = 0
   \<and> risk_factors (fst (calculate_asset_risk demo_engine 0 1)) = []
   \<and> recommendations (fst (calculate_asset_risk demo_engine 0 1))
       = [''No vulnerabilities detected. Continue regular scanning.'']
   \<and> snd (calculate_asset_risk demo_engine 0 1) = demo_engine"
proof -
  have h: "\<forall>i \<in> set (vulnerability_ids (store demo_engine 1)).
             map_of (vulnerabilities demo_engine) i = None"
    by (simp add: demo_engine_def demo_workstation_def)
  have ids: "vulnerability_ids (store demo_engine 1) = [''VULN-404'']"
    by (simp add: demo_engine_def demo_workstation_def)
  have dangling: "map_of (vulnerabilities demo_engine) ''VULN-404'' = None"
    by (simp add: demo_engine_def)
  show ?thesis
    using no_resolvable_vulnerabilities_zero_result [OF h, of 0] ids dangling by simp
qed

text \<open>
  Claim C8, as amended. Two successive calls on the same asset return results that agree
  in every field except the time stamp \<open>calculated_at\<close>, which each call takes from the
  clock: the second result is the first one with the second clock reading. The score
  the first call stores in the asset does not reach the second result.
\<close>

theorem asset_risk_recomputed_equal_up_to_timestamp:
  "fst (calculate_asset_risk (snd (calculate_asset_risk e now1 r)) now2 r)
     = (fst (calculate_asset_risk e now1 r))\<lparr>calculated_at := now2\<rparr>"
proof (cases "asset_vulns e (store e r) = []")
  case True
  then show ?thesis by (simp add: calculate_asset_risk_def)
next
  case False
  then show ?thesis by (simp add: calculate_asset_risk_def Let_def)
qed

text \<open>
  Claim C8 as stated fails: with the clock at 0 for the first call and at 1 for the
  second, the two result records of the example server differ.
\<close>

theorem asset_risk_recomputed_not_identical:
  "fst (calculate_asset_risk (snd (calculate_asset_risk demo_engine 0 0)) 1 0)
     \<noteq> fst (calculate_asset_risk demo_engine 0 0)"
proof
  assume "fst (calculate_asset_risk (snd (calculate_asset_risk demo_engine 0 0)) 1 0)
            = fst (calculate_asset_risk demo_engine 0 0)"
  then have "calculated_at
               (fst (calculate_asset_risk (snd (calculate_asset_risk demo_engine 0 0)) 1 0))
             = calculated_at (fst (calculate_asset_risk demo_engine 0 0))"
    by simp
  then show False by (simp add: calculated_at_now)
qed

text \<open>
  Claim C9. For an asset with at least one resolvable vulnerability, the engine after the
  call is the engine before it with one change: the asset's \<open>risk_score\<close> field holds the
  total risk score of the result. Every other field of that asset, every other asset,
  the vulnerability dictionary, the threat intelligence and the scenario list are as
  before.
\<close>

theorem asset_risk_only_writes_risk_score:
  assumes "asset_vulns e (store e r) \<noteq> []"
  shows "snd (calculate_asset_risk e now r) =
           e\<lparr>store := (store e)(r := (store e r)
                \<lparr>risk_score_field :=
                   Some (total_risk_score (fst (calculate_asset_risk e now r)))\<rparr>)\<rparr>"
  using assms by (simp add: calculate_asset_risk_def Let_def)

theorem asset_risk_only_writes_risk_score_witness:
  "asset_vulns demo_engine (store demo_engine 0) \<noteq> []
   \<and> snd (calculate_asset_risk demo_engine 0 0) =
       demo_engine\<lparr>store := (store demo_engine)(0 := (store demo_engine 0)
          \<lparr>risk_score_field :=
             Some (total_risk_score (fst (calculate_asset_risk demo_engine 0 0)))\<rparr>)\<rparr>"
proof -
  have h: "asset_vulns demo_engine (store demo_engine 0) \<noteq> []"
    by (simp add: demo_store_0 demo_asset_vulns)
  show ?thesis
    using asset_risk_only_writes_risk_score [OF h, of 0] h by simp
qed

subsection \<open>The portfolio summary\<close>

lemma summary_buckets_from_70:
  "length (filter (\<lambda>a. risk_score a \<ge> 70) xs)
     + length (filter (\<lambda>a. 40 \<le> risk_score a \<and> risk_score a < 70) xs)
     + length (filter (\<lambda>a. risk_score a < 40) xs) = length xs"
  by (induction xs) auto

text \<open>
  Claim C1 fails on the code. After the example server has been scored (its score is
  100), the summary of the two-asset portfolio counts the server both under
  \<open>critical_assets\<close> and under \<open>high_risk_assets\<close>: the four buckets add up to 3.
\<close>

theorem risk_summary_counts_critical_asset_twice:
  "(let s = get_risk_summary (snd (calculate_asset_risk demo_engine 0 0))
    in map_of s ''total_assets'' = Some 2
     \<and> map_of s ''critical_assets'' = Some 1
     \<and> map_of s ''high_risk_assets'' = Some 1
     \<and> map_of s ''medium_risk_assets'' = Some 0
     \<and> map_of s ''low_risk_assets'' = Some 1)"
  unfolding demo_engine_after
  by (simp add: get_risk_summary_def risk_score_def demo_assets demo_store_1
      demo_workstation_def demo_asset_def)


section \<open>Properties of the scenario correlation\<close>

lemma same_up_to_scores_refl: "same_up_to_scores e e"
proof -
  have "\<exists>x. store e r = (store e r)\<lparr>risk_score_field := x\<rparr>" for r
    by (rule exI [of _ "risk_score_field (store e r)"]) simp
  then have "e = e\<lparr>store := store e\<rparr> \<and> (\<forall>r. \<exists>x. store e r = (store e r)\<lparr>risk_score_field := x\<rparr>)"
    by simp
  then show ?thesis unfolding same_up_to_scores_def by blast
qed

lemma same_up_to_scoresE:
  assumes "same_up_to_scores e e1"
  obtains s1 x where "e1 = e\<lparr>store := s1\<rparr>" 
    and "\<forall>r. \<exists>x. s1 r = (store e r)\<lparr>risk_score_field := x\<rparr>"
    and "s1 r = (store e r)\<lparr>risk_score_field := x\<rparr>"
  using assms unfolding same_up_to_scores_def by blast

lemma asset_vulns_same_up_to_scores:
  assumes "same_up_to_scores e e1"
  shows "asset_vulns e1 (store e1 r) = asset_vulns e (store e r)"
proof -
  from assms obtain s1 x where "e1 = e\<lparr>store := s1\<rparr>" "s1 r = (store e r)\<lparr>risk_score_field := x\<rparr>"
    by (rule same_up_to_scoresE)
  then show ?thesis by simp
qed

lemma result_same_up_to_scores:
  assumes "same_up_to_scores e e1"
  shows "fst (calculate_asset_risk e1 now r) = fst (calculate_asset_risk e now r)"
proof -
  from assms obtain s1 x where e1: "e1 = e\<lparr>store := s1\<rparr>" 
    and x: "s1 r = (store e r)\<lparr>risk_score_field := x\<rparr>"
    by (rule same_up_to_scoresE)
  show ?thesis
  proof (cases "asset_vulns e (store e r) = []")
    case True
    then show ?thesis by (simp add: calculate_asset_risk_def e1 x)
  next
    case False
    then show ?thesis by (simp add: calculate_asset_risk_def Let_def e1 x)
  qed
qed


lemma engine_same_up_to_scores:
  assumes "same_up_to_scores e e1"
  shows "same_up_to_scores e (snd (calculate_asset_risk e1 now r))"
proof (cases "asset_vulns e1 (store e1 r) = []")
  case True
  then show ?thesis using assms by (simp add: engine_after_no_vulns)
next
  case False
  from assms obtain s1 x where e1: "e1 = e\<lparr>store := s1\<rparr>"
    and s1: "\<forall>r. \<exists>x. s1 r = (store e r)\<lparr>risk_score_field := x\<rparr>"
    and x: "s1 r = (store e r)\<lparr>risk_score_field := x\<rparr>"
    by (rule same_up_to_scoresE)
  define t where "t = total_risk_score (fst (calculate_asset_risk e1 now r))"
  define s2 where "s2 = s1(r := (store e r)\<lparr>risk_score_field := Some t\<rparr>)"
  have "snd (calculate_asset_risk e1 now r) = e\<lparr>store := s2\<rparr>"
    unfolding engine_after_asset_risk [OF False] s2_def t_def by (simp add: e1 x)
  moreover have "\<exists>y. s2 r' = (store e r')\<lparr>risk_score_field := y\<rparr>" for r'
    using s1 by (cases "r' = r") (auto simp: s2_def)
  ultimately show ?thesis unfolding same_up_to_scores_def by blast
qed


lemma fields_same_up_to_scores:
  assumes "same_up_to_scores e e1"
  shows "asset_id (store e1 r) = asset_id (store e r)"
    and "asset_name (store e1 r) = asset_name (store e r)"
    and "exposed_to_internet (store e1 r) = exposed_to_internet (store e r)"
    and "location (store e1 r) = location (store e r)"
proof -
  from assms obtain s1 x where "e1 = e\<lparr>store := s1\<rparr>"
    "s1 r = (store e r)\<lparr>risk_score_field := x\<rparr>"
    by (rule same_up_to_scoresE)
  then show "asset_id (store e1 r) = asset_id (store e r)"
    and "asset_name (store e1 r) = asset_name (store e r)"
    and "exposed_to_internet (store e1 r) = exposed_to_internet (store e r)"
    and "location (store e1 r) = location (store e r)"
    by simp_all
qed

lemma breach_same_up_to_scores:
  assumes "same_up_to_scores e e1"
  shows "create_internet_breach_scenario (store e1 r) now vs
           = create_internet_breach_scenario (store e r) now vs"
  unfolding create_internet_breach_scenario_def
  by (simp only: fields_same_up_to_scores [OF assms])

lemma exploitation_engine:
  "snd (create_exploitation_scenario e now r vs) = snd (calculate_asset_risk e now r)"
  by (simp add: create_exploitation_scenario_def Let_def split_beta)

lemma exploitation_same_up_to_scores:
  assumes "same_up_to_scores e e1"
  shows "fst (create_exploitation_scenario e1 now r vs)
           = fst (create_exploitation_scenario e now r vs)"
proof -
  have a: "same_up_to_scores e (snd (calculate_asset_risk e1 now r))"
    using assms by (rule engine_same_up_to_scores)
  have b: "same_up_to_scores e (snd (calculate_asset_risk e now r))"
    using same_up_to_scores_refl by (rule engine_same_up_to_scores)
  show ?thesis
    unfolding create_exploitation_scenario_def Let_def split_beta fst_conv
    by (simp only: fields_same_up_to_scores [OF a] fields_same_up_to_scores [OF b]
        result_same_up_to_scores [OF assms])
qed

lemma scenario_loop_same_up_to_scores:
  assumes "same_up_to_scores e e1"
  shows "fst (scenario_loop e1 now rs acc) = acc @ concat (map (scenarios_of e now) rs)
       \<and> same_up_to_scores e (snd (scenario_loop e1 now rs acc))"
  using assms
proof (induction rs arbitrary: e1 acc)
  case Nil
  then show ?case by simp
next
  case (Cons r rs)
  have av: "asset_vulns e1 (store e1 r) = asset_vulns e (store e r)"
    using Cons.prems by (rule asset_vulns_same_up_to_scores)
  define crit where "crit = critical_vulns_of e r"
  have crit: "filter (\<lambda>v. severity v = CRITICAL) (asset_vulns e (store e r)) = crit"
    by (simp add: crit_def critical_vulns_of_def)
  define e2 where "e2 = (if asset_vulns e (store e r) \<noteq> [] \<and> 2 \<le> length crit
                         then snd (calculate_asset_risk e1 now r) else e1)"
  have same2: "same_up_to_scores e e2"
    using Cons.prems engine_same_up_to_scores [OF Cons.prems] by (simp add: e2_def)
  have ex2: "exposed_to_internet (store e2 r) = exposed_to_internet (store e r)"
    using same2 by (rule fields_same_up_to_scores)
  have step: "scenario_loop e1 now (r # rs) acc
                = scenario_loop e2 now rs (acc @ scenarios_of e now r)"
  proof (cases "asset_vulns e (store e r) = []")
    case True
    then show ?thesis by (simp add: av e2_def scenarios_of_def)
  next
    case False
    show ?thesis
    proof (cases "2 \<le> length crit")
      case True
      have e2: "e2 = snd (calculate_asset_risk e1 now r)"
        using False True by (simp add: e2_def)
      show ?thesis
        using False True ex2 breach_same_up_to_scores [OF same2, of r now crit]
        by (simp add: av crit Let_def split_beta exploitation_engine
            exploitation_same_up_to_scores [OF Cons.prems] scenarios_of_def
            crit_def [symmetric] e2 [symmetric])
    next
      case False2: False
      have e2: "e2 = e1"
        using False2 by (simp add: e2_def)
      show ?thesis
        using False False2 ex2 breach_same_up_to_scores [OF same2, of r now crit]
        by (simp add: av crit Let_def scenarios_of_def crit_def [symmetric] e2)
    qed
  qed
  show ?case
    unfolding step using Cons.IH [OF same2, of "acc @ scenarios_of e now r"] by simp
qed


lemma lateral_groups_category:
  "sc \<in> set (lateral_groups st now groups) \<Longrightarrow>
   scenario_category sc = ''Unauthorized Lateral Movement''"
  by (induction st now groups rule: lateral_groups.induct)
     (auto simp: lateral_scenario_def Let_def split: if_splits)

lemma lateral_not_exploitation:
  "filter (is_exploitation_for k) (identify_lateral_movement e now) = []"
  unfolding filter_empty_conv identify_lateral_movement_def
  by (auto simp: is_exploitation_for_def dest!: lateral_groups_category)

lemma breach_not_exploitation:
  "\<not> is_exploitation_for k (create_internet_breach_scenario a now vs)"
  by (simp add: is_exploitation_for_def create_internet_breach_scenario_def)

lemma exploitation_fields:
  "scenario_category (fst (create_exploitation_scenario e now r vs)) = ''Multi-Stage Attack''"
  "affected_asset_ids (fst (create_exploitation_scenario e now r vs)) = [asset_id (store e r)]"
  "scenario_severity (fst (create_exploitation_scenario e now r vs)) = CRITICAL"
  "likelihood (fst (create_exploitation_scenario e now r vs)) = ''Likely''"
  "impact (fst (create_exploitation_scenario e now r vs)) = ''Catastrophic''"
  "business_risk_score (fst (create_exploitation_scenario e now r vs))
     = min (total_risk_score (fst (calculate_asset_risk e now r)) * 1.2) 100"
  "detection_coverage (fst (create_exploitation_scenario e now r vs)) = 60"
  "correlated_vulnerability_ids (fst (create_exploitation_scenario e now r vs)) = map vuln_id vs"
  using fields_same_up_to_scores(1)
          [OF engine_same_up_to_scores [OF same_up_to_scores_refl], of e now r r]
  by (simp_all add: create_exploitation_scenario_def Let_def split_beta)

lemma exploitation_of_asset:
  "filter (is_exploitation_for k) (scenarios_of e now r) =
     (if asset_id (store e r) = k \<and> 2 \<le> length (critical_vulns_of e r)
      then [fst (create_exploitation_scenario e now r (critical_vulns_of e r))] else [])"
proof -
  have "asset_vulns e (store e r) \<noteq> []" if "2 \<le> length (critical_vulns_of e r)"
    using that by (auto simp: critical_vulns_of_def)
  moreover have "is_exploitation_for k (fst (create_exploitation_scenario e now r vs))
                   \<longleftrightarrow> asset_id (store e r) = k" for vs
    by (auto simp: is_exploitation_for_def exploitation_fields)
  ultimately show ?thesis
    by (auto simp: scenarios_of_def breach_not_exploitation)
qed

lemma exploitation_of_other_assets:
  assumes "\<forall>(k', r') \<in> set al. asset_id (store e r') = k'" and "k \<notin> fst ` set al"
  shows "filter (is_exploitation_for k) (concat (map (scenarios_of e now) (map snd al))) = []"
  using assms by (induction al) (auto simp: exploitation_of_asset)

lemma exploitation_of_portfolio:
  assumes "distinct (map fst al)"
    and "\<forall>(k', r') \<in> set al. asset_id (store e r') = k'"
    and "(k, r) \<in> set al"
    and "2 \<le> length (critical_vulns_of e r)"
  shows "filter (is_exploitation_for k) (concat (map (scenarios_of e now) (map snd al)))
           = [fst (create_exploitation_scenario e now r (critical_vulns_of e r))]"
  using assms
proof (induction al)
  case Nil
  then show ?case by simp
next
  case (Cons p al)
  obtain k0 r0 where p: "p = (k0, r0)" by (cases p)
  show ?case
  proof (cases "(k, r) = (k0, r0)")
    case True
    then have "k \<notin> fst ` set al" using Cons.prems(1) p by auto
    then have "filter (is_exploitation_for k)
                 (concat (map (scenarios_of e now) (map snd al))) = []"
      using Cons.prems(2) by (intro exploitation_of_other_assets) auto
    then show ?thesis using True Cons.prems p by (simp add: exploitation_of_asset)
  next
    case False
    then have in_tl: "(k, r) \<in> set al" using Cons.prems(3) p by auto
    then have "k0 \<noteq> k" using Cons.prems(1) p by force
    moreover have "asset_id (store e r0) = k0" using Cons.prems(2) p by auto
    ultimately have "filter (is_exploitation_for k) (scenarios_of e now r0) = []"
      by (simp add: exploitation_of_asset)
    moreover have "filter (is_exploitation_for k)
                     (concat (map (scenarios_of e now) (map snd al)))
                   = [fst (create_exploitation_scenario e now r (critical_vulns_of e r))]"
      using Cons.prems in_tl by (intro Cons.IH) auto
    ultimately show ?thesis by (simp add: p)
  qed
qed

lemma generated_scenarios:
  "fst (generate_risk_scenarios e now) =
     concat (map (scenarios_of e now) (map snd (assets e)))
     @ identify_lateral_movement (snd (scenario_loop e now (map snd (assets e)) [])) now"
  using scenario_loop_same_up_to_scores [OF same_up_to_scores_refl, of e now "map snd (assets e)" "[]"]
  by (simp add: generate_risk_scenarios_def Let_def split_beta)

text \<open>
  Claim C5. In an engine whose asset dictionary has distinct keys, each the id of the
  asset it maps to, an asset with at least two resolvable vulnerabilities of severity
  Critical gets exactly one multi-stage exploitation scenario from one pass of
  \<open>generate_risk_scenarios\<close>: severity Critical, likelihood Likely, impact Catastrophic,
  business risk score the asset's total risk score times 1.2 capped at 100, detection
  coverage 60, and correlated vulnerability ids containing the ids of the asset's
  Critical vulnerabilities.
\<close>

theorem multi_stage_scenario_emitted_once:
  assumes "distinct (map fst (assets e))"
    and "\<forall>(k', r') \<in> set (assets e). asset_id (store e r') = k'"
    and "(k, r) \<in> set (assets e)"
    and "2 \<le> length (filter (\<lambda>v. severity v = CRITICAL) (asset_vulns e (store e r)))"
  shows "\<exists>sc. filter (is_exploitation_for k) (fst (generate_risk_scenarios e now)) = [sc]
           \<and> scenario_severity sc = CRITICAL
           \<and> likelihood sc = ''Likely''
           \<and> impact sc = ''Catastrophic''
           \<and> business_risk_score sc
               = min (total_risk_score (fst (calculate_asset_risk e now r)) * 1.2) 100
           \<and> detection_coverage sc = 60
           \<and> set (map vuln_id (filter (\<lambda>v. severity v = CRITICAL) (asset_vulns e (store e r))))
               \<subseteq> set (correlated_vulnerability_ids sc)"
proof -
  have crit: "2 \<le> length (critical_vulns_of e r)"
    using assms(4) by (simp add: critical_vulns_of_def)
  have "filter (is_exploitation_for k) (fst (generate_risk_scenarios e now))
          = [fst (create_exploitation_scenario e now r (critical_vulns_of e r))]"
    unfolding generated_scenarios filter_append lateral_not_exploitation
    using exploitation_of_portfolio [OF assms(1) assms(2) assms(3) crit, of now] by simp
  then show ?thesis
    by (simp add: exploitation_fields critical_vulns_of_def)
qed


theorem multi_stage_scenario_emitted_once_witness:
  "distinct (map fst (assets demo_engine))
   \<and> (''srv-prod-db-01'', 0) \<in> set (assets demo_engine)
   \<and> 2 \<le> length (filter (\<lambda>v. severity v = CRITICAL)
                   (asset_vulns demo_engine (store demo_engine 0)))
   \<and> (\<exists>sc. filter (is_exploitation_for ''srv-prod-db-01'')
               (fst (generate_risk_scenarios demo_engine 0)) = [sc]
           \<and> scenario_severity sc = CRITICAL
           \<and> likelihood sc = ''Likely''
           \<and> impact sc = ''Catastrophic''
           \<and> business_risk_score sc
               = min (total_risk_score (fst (calculate_asset_risk demo_engine 0 0)) * 1.2) 100
           \<and> detection_coverage sc = 60
           \<and> set (map vuln_id (filter (\<lambda>v. severity v = CRITICAL)
                                 (asset_vulns demo_engine (store demo_engine 0))))
               \<subseteq> set (correlated_vulnerability_ids sc))"
proof -
  have h1: "distinct (map fst (assets demo_engine))"
    by (simp add: demo_assets)
  have h2: "\<forall>(k', r') \<in> set (assets demo_engine). asset_id (store demo_engine r') = k'"
    by (simp add: demo_assets demo_store_0 demo_store_1 demo_asset_def demo_workstation_def)
  have h3: "(''srv-prod-db-01'', 0) \<in> set (assets demo_engine)"
    by (simp add: demo_assets)
  have h4: "2 \<le> length (filter (\<lambda>v. severity v = CRITICAL)
                     (asset_vulns demo_engine (store demo_engine 0)))"
    by (simp add: demo_store_0 demo_asset_vulns demo_vuln1_def demo_vuln2_def demo_vuln3_def)
  show ?thesis
    by (intro conjI h1 h3 h4 multi_stage_scenario_emitted_once [OF h1 h2 h3 h4])
qed


section \<open>Properties of the ensemble engine\<close>







subsection \<open>Operations that can go wrong\<close>

lemma and_then_Inr [simp]: "and_then (Inr v) f = f v"
  by (simp add: and_then_def)

lemma and_then_Inl [simp]: "and_then (Inl err) f = Inl err"
  by (simp add: and_then_def)

lemma checked_True [simp]: "checked err True x = Inr x"
  by (simp add: checked_def)

lemma checked_False [simp]: "checked err False x = Inl err"
  by (simp add: checked_def)

lemma np_nonempty [simp]:
  assumes "xs \<noteq> []"
  shows "np_mean xs = Inr (mean_of xs)" and "np_var xs = Inr (var_of xs)"
    and "np_std xs = Inr (std_of xs)" and "np_median xs = Inr (median_of xs)"
    and "np_percentile xs q = Inr (percentile_of xs q)"
    and "np_max xs = Inr (Max (set xs))" and "np_min xs = Inr (Min (set xs))"
  using assms
  by (simp_all add: np_mean_def np_var_def np_std_def np_median_def np_percentile_def
      np_max_def np_min_def)

lemma np_guarded [simp]:
  "(if xs \<noteq> [] then np_mean xs else Inr 0) = Inr (if xs \<noteq> [] then mean_of xs else 0)"
  "(if xs \<noteq> [] then np_min xs else Inr 0) = Inr (if xs \<noteq> [] then Min (set xs) else 0)"
  "(if xs \<noteq> [] then np_max xs else Inr 0) = Inr (if xs \<noteq> [] then Max (set xs) else 0)"
  by simp_all

lemma divide_nonzero [simp]:
  assumes "y \<noteq> 0"
  shows "np_divide x y = Inr (x / y)" and "py_divide x y = Inr (x / y)"
  using assms by (simp_all add: np_divide_def py_divide_def)

lemma sum_checked_cubes:
  assumes "s \<noteq> 0"
  shows "sum_checked (\<lambda>x. and_then (np_divide (x - m) s) (\<lambda>z. Inr (z ^ 3))) data
           = Inr (sum_list (map (\<lambda>x. ((x - m) / s) ^ 3) data))"
  using assms by (induction data) simp_all

lemma sum_checked_Inr [simp]:
  "sum_checked (\<lambda>x. Inr (g x)) data = Inr (sum_list (map g data))"
  by (induction data) simp_all

lemma skewness_returns: "\<exists>s. calculate_skewness xs = Inr s"
proof (cases "length xs < 3")
  case True
  then show ?thesis by (simp add: calculate_skewness_def)
next
  case False
  then have ne: "xs \<noteq> []" by auto
  have d: "(real (length xs) - 1) * (real (length xs) - 2) \<noteq> 0"
    using False by auto
  show ?thesis
    using False ne d
    by (simp add: calculate_skewness_def Let_def)
qed



lemma agreement_value:
  "2 \<le> length ps \<Longrightarrow> calculate_model_agreement ps = Inr (agreement_of ps)"
  by (cases "ps = []") (auto simp: calculate_model_agreement_def agreement_of_def)



lemma uncertainty_value:
  "ps \<noteq> [] \<Longrightarrow> quantify_uncertainty ps f = Inr (uncertainty_of ps f)"
  by (simp add: quantify_uncertainty_def uncertainty_of_def Let_def)

lemma low_confidence_value:
  "ps \<noteq> [] \<Longrightarrow> low_confidence_score ps a = Inr (low_confidence_of ps a)"
  by (simp add: low_confidence_score_def low_confidence_of_def)

subsection \<open>Feature extraction\<close>




lemma extract_without_attribute:
  assumes "vulns \<noteq> []" and "\<not> list_all (\<lambda>v. actively_exploited v \<noteq> None) vulns"
  shows "extract_ultra_precise_features asset vulns now = Inl AttributeError"
  using assms by (simp add: extract_ultra_precise_features_def Let_def)

lemma extract_returns:
  assumes "vulns \<noteq> []" and "list_all (\<lambda>v. actively_exploited v \<noteq> None) vulns"
  shows "\<exists>f. extract_ultra_precise_features asset vulns now = Inr f
           \<and> vuln_count_total f = length vulns
           \<and> vuln_count_critical f = count_if (\<lambda>v. cvss_score v \<ge> 9) vulns
           \<and> vuln_count_high f = count_if (\<lambda>v. 7 \<le> cvss_score v \<and> cvss_score v < 9) vulns
           \<and> vuln_count_medium f = count_if (\<lambda>v. 4 \<le> cvss_score v \<and> cvss_score v < 7) vulns
           \<and> vuln_count_low f = count_if (\<lambda>v. cvss_score v < 4) vulns
           \<and> cvss_mean f = mean_of (map cvss_score vulns)
           \<and> cvss_max f = Max (set (map cvss_score vulns))
           \<and> exploit_available_count f = count_if exploit_available vulns
           \<and> exploit_public_count f = count_if exploit_public vulns
           \<and> actively_exploited_count f
               = count_if (\<lambda>v. actively_exploited v = Some True) vulns
           \<and> exploit_ratio f = real (count_if exploit_available vulns) / real (length vulns)
           \<and> patch_coverage f = real (count_if patch_available vulns) / real (length vulns)
           \<and> asset_criticality f = crit_val asset
           \<and> asset_exposed f = (if exposed_to_internet asset then 1 else 0)
           \<and> severity_variance f = var_of (map cvss_score vulns)
           \<and> (list_all (\<lambda>v. published_date v = None) vulns \<longrightarrow>
                vuln_age_mean f = 0 \<and> vuln_age_min f = 0 \<and> vuln_age_max f = 0
                \<and> vuln_recent_count f = 0 \<and> vuln_old_count f = 0)"
proof -
  obtain sk where sk: "calculate_skewness (map cvss_score vulns) = Inr sk"
    using skewness_returns by blast
  have d: "real (length vulns) \<noteq> 0" "real (max (length vulns) 1) \<noteq> 0"
    "max (crit_val asset) 1 \<noteq> 0"
    using assms(1) by simp_all
  show ?thesis
  proof (cases "list_all (\<lambda>v. published_date v = None) vulns")
    case True
    then have ages: "filter (\<lambda>v. published_date v \<noteq> None) vulns = []"
      by (auto simp: list_all_iff filter_empty_conv)
    show ?thesis
      unfolding extract_ultra_precise_features_def Let_def
      using assms d ages by (simp add: sk)
  next
    case False
    show ?thesis
      unfolding extract_ultra_precise_features_def Let_def
      using assms d False by (simp add: sk)
  qed
qed

lemma extract_Inr_iff:
  "(\<exists>f. extract_ultra_precise_features asset vulns now = Inr f)
     \<longleftrightarrow> vulns \<noteq> [] \<and> list_all (\<lambda>v. actively_exploited v \<noteq> None) vulns"
proof (cases "vulns = []")
  case True
  then show ?thesis by (simp add: extract_ultra_precise_features_def)
next
  case ne: False
  show ?thesis
  proof (cases "list_all (\<lambda>v. actively_exploited v \<noteq> None) vulns")
    case True
    then show ?thesis using ne extract_returns [OF ne True, of asset now] by blast
  next
    case False
    then show ?thesis using ne extract_without_attribute [OF ne False, of asset now] by simp
  qed
qed


lemma extract_fields:
  assumes "extract_ultra_precise_features asset vulns now = Inr f"
  shows "vuln_count_total f = length vulns"
    and "vuln_count_critical f = count_if (\<lambda>v. cvss_score v \<ge> 9) vulns"
    and "vuln_count_high f = count_if (\<lambda>v. 7 \<le> cvss_score v \<and> cvss_score v < 9) vulns"
    and "vuln_count_medium f = count_if (\<lambda>v. 4 \<le> cvss_score v \<and> cvss_score v < 7) vulns"
    and "vuln_count_low f = count_if (\<lambda>v. cvss_score v < 4) vulns"
    and "cvss_mean f = mean_of (map cvss_score vulns)"
    and "cvss_max f = Max (set (map cvss_score vulns))"
    and "exploit_available_count f = count_if exploit_available vulns"
    and "exploit_public_count f = count_if exploit_public vulns"
    and "actively_exploited_count f = count_if (\<lambda>v. actively_exploited v = Some True) vulns"
    and "exploit_ratio f = real (count_if exploit_available vulns) / real (length vulns)"
    and "patch_coverage f = real (count_if patch_available vulns) / real (length vulns)"
    and "asset_criticality f = crit_val asset"
    and "asset_exposed f = (if exposed_to_internet asset then 1 else 0)"
    and "severity_variance f = var_of (map cvss_score vulns)"
proof -
  have "vulns \<noteq> []" and "list_all (\<lambda>v. actively_exploited v \<noteq> None) vulns"
    using assms extract_Inr_iff [of asset vulns now] by auto
  from extract_returns [OF this, of asset now] assms
  show "vuln_count_total f = length vulns"
    and "vuln_count_critical f = count_if (\<lambda>v. cvss_score v \<ge> 9) vulns"
    and "vuln_count_high f = count_if (\<lambda>v. 7 \<le> cvss_score v \<and> cvss_score v < 9) vulns"
    and "vuln_count_medium f = count_if (\<lambda>v. 4 \<le> cvss_score v \<and> cvss_score v < 7) vulns"
    and "vuln_count_low f = count_if (\<lambda>v. cvss_score v < 4) vulns"
    and "cvss_mean f = mean_of (map cvss_score vulns)"
    and "cvss_max f = Max (set (map cvss_score vulns))"
    and "exploit_available_count f = count_if exploit_available vulns"
    and "exploit_public_count f = count_if exploit_public vulns"
    and "actively_exploited_count f = count_if (\<lambda>v. actively_exploited v = Some True) vulns"
    and "exploit_ratio f = real (count_if exploit_available vulns) / real (length vulns)"
    and "patch_coverage f = real (count_if patch_available vulns) / real (length vulns)"
    and "asset_criticality f = crit_val asset"
    and "asset_exposed f = (if exposed_to_internet asset then 1 else 0)"
    and "severity_variance f = var_of (map cvss_score vulns)"
    by auto
qed



lemma bayesian_bounds:
  assumes "features_ok f"
  shows "0 \<le> bayesian_predict f \<and> bayesian_predict f \<le> 100"
proof -
  have "0 \<le> cvss_mean f * 10 * (1 + exploit_ratio f * 0.5) * (0.5 + asset_criticality f / 10)"
    using assms by (intro mult_nonneg_nonneg) (simp_all add: features_ok_def)
  then show ?thesis by (simp add: bayesian_predict_def Let_def)
qed

lemma gradient_boosting_bounds:
  assumes "features_ok f"
  shows "0 \<le> gradient_boosting_predict f \<and> gradient_boosting_predict f \<le> 100"
proof -
  have "0 \<le> (real (vuln_count_critical f) * 28 + real (vuln_count_high f) * 16
               + real (actively_exploited_count f) * 20) * (0.5 + asset_criticality f / 10)"
    using assms by (intro mult_nonneg_nonneg add_nonneg_nonneg) (simp_all add: features_ok_def)
  then show ?thesis by (simp add: gradient_boosting_predict_def Let_def)
qed

lemma neural_network_bounds:
  assumes "features_ok f"
  shows "7 \<le> neural_network_predict f \<and> neural_network_predict f \<le> 100"
proof -
  have "0 \<le> cvss_max f * 8" "0 \<le> exploit_ratio f * 10 * 15" "7 \<le> asset_criticality f * 7"
    "0 \<le> asset_exposed f * 10 * 10"
    using assms by (simp_all add: features_ok_def)
  then have "7 \<le> cvss_max f * 8 + (exploit_ratio f * 10 * 15 + (asset_criticality f * 7
                 + asset_exposed f * 10 * 10))"
    by linarith
  then show ?thesis by (simp add: neural_network_predict_def Let_def)
qed

lemma markov_bounds:
  assumes "features_ok f"
  shows "0 \<le> markov_predict f \<and> markov_predict f \<le> 100"
proof -
  have "0 \<le> cvss_mean f * 10 * (1 + exploit_ratio f * 0.3)"
    using assms by (intro mult_nonneg_nonneg) (simp_all add: features_ok_def)
  then show ?thesis by (simp add: markov_predict_def Let_def)
qed

lemma rules_based_bounds:
  assumes "features_ok f"
  shows "0 \<le> rules_based_prediction f \<and> rules_based_prediction f \<le> 100"
proof -
  define r4 where "r4 = real (vuln_count_critical f) * 30 + real (vuln_count_high f) * 15
                          + real (vuln_count_medium f) * 7 + real (vuln_count_low f) * 2"
  define r5 where "r5 = (if actively_exploited_count f > 0 then r4 * 1.5
                else if exploit_public_count f > 0 then r4 * 1.3
                else if exploit_available_count f > 0 then r4 * 1.2
                else r4)"
  define r6 where "r6 = (if asset_exposed f > 0 then r5 * 1.3 else r5)"
  have r4: "0 \<le> r4" by (simp add: r4_def)
  have r5: "0 \<le> r5" using r4 by (simp add: r5_def)
  have r6: "0 \<le> r6" using r5 by (simp add: r6_def)
  have "0 \<le> r6 * (0.5 + (asset_criticality f / 10) * 1.5)"
    using r6 assms by (intro mult_nonneg_nonneg) (simp_all add: features_ok_def)
  moreover have "rules_based_prediction f
                   = min (r6 * (0.5 + (asset_criticality f / 10) * 1.5)) 100"
    by (simp add: rules_based_prediction_def Let_def r6_def r5_def r4_def)
  ultimately show ?thesis by simp
qed


lemma predictions_mean_pos:
  assumes "features_ok f"
  shows "0 < mean_of (get_ensemble_predictions f)"
  using bayesian_bounds [OF assms] gradient_boosting_bounds [OF assms]
    neural_network_bounds [OF assms] markov_bounds [OF assms] rules_based_bounds [OF assms]
  by (simp add: get_ensemble_predictions_def mean_of_def)









lemma ultra_no_vulns:
  "calculate_ultra_precise_risk en asset [] hist gt now = Inr (zero_risk_score, en)"
  by (simp add: calculate_ultra_precise_risk_def)

lemma length_predictions: "length (get_ensemble_predictions f) = 5"
  by (simp add: get_ensemble_predictions_def)

lemma predictions_agreement:
  "calculate_model_agreement (get_ensemble_predictions f)
     = Inr (agreement_of (get_ensemble_predictions f))"
  by (simp add: agreement_value length_predictions)

lemma predictions_nonempty: "get_ensemble_predictions f \<noteq> []"
  by (simp add: get_ensemble_predictions_def)

lemma ultra_raises:
  "vulns \<noteq> [] \<Longrightarrow> extract_ultra_precise_features asset vulns now = Inl err \<Longrightarrow>
   calculate_ultra_precise_risk en asset vulns hist gt now = Inl err"
  by (simp add: calculate_ultra_precise_risk_def)

lemma ultra_low_agreement:
  "vulns \<noteq> [] \<Longrightarrow> extract_ultra_precise_features asset vulns now = Inr f \<Longrightarrow>
   agreement_of (get_ensemble_predictions f) < 0.90 \<Longrightarrow>
   calculate_ultra_precise_risk en asset vulns hist gt now =
     Inr (low_confidence_of (get_ensemble_predictions f)
            (agreement_of (get_ensemble_predictions f)), en)"
  by (simp add: calculate_ultra_precise_risk_def min_model_agreement_def Let_def
      predictions_agreement low_confidence_value predictions_nonempty)

lemma ultra_agreement:
  assumes "vulns \<noteq> []" and "extract_ultra_precise_features asset vulns now = Inr f"
    and "\<not> agreement_of (get_ensemble_predictions f) < 0.90"
  shows "\<exists>r. calculate_ultra_precise_risk en asset vulns hist gt now
               = Inr (r, update_prediction_history en r gt now)
           \<and> score r = adjusted_score hist (stacking_predict (get_ensemble_predictions f))
           \<and> confidence_interval r
               = predict_interval (stacking_predict (get_ensemble_predictions f)) f
           \<and> uncertainty r = uncertainty_of (get_ensemble_predictions f) f
           \<and> confidence r
               = calculate_confidence (agreement_of (get_ensemble_predictions f))
                   (uncertainty_of (get_ensemble_predictions f) f) (length vulns) f
           \<and> model_agreement r = agreement_of (get_ensemble_predictions f)
           \<and> contributing_factors r = explain_risk_factors f
           \<and> risk_level r
               = categorize_risk_ultra_precise (score r) (confidence r) (uncertainty r)"
  using assms
  by (simp add: calculate_ultra_precise_risk_def min_model_agreement_def Let_def
      calibrate_def adjusted_score_def predictions_agreement uncertainty_value
      predictions_nonempty)

lemma categorize_is_level:
  "\<exists>l. categorize_risk_ultra_precise s c u = RiskLevel_value l"
proof -
  have "categorize_risk_ultra_precise s c u = RiskLevel_value CRITICAL
      \<or> categorize_risk_ultra_precise s c u = RiskLevel_value HIGH
      \<or> categorize_risk_ultra_precise s c u = RiskLevel_value MEDIUM
      \<or> categorize_risk_ultra_precise s c u = RiskLevel_value LOW
      \<or> categorize_risk_ultra_precise s c u = RiskLevel_value INFORMATIONAL"
    by (simp add: categorize_risk_ultra_precise_def)
  then show ?thesis by blast
qed

lemma uncertain_is_no_level: "RiskLevel_value l \<noteq> ''Uncertain''"
  by (cases l) simp_all

lemma agreement_of_five:
  assumes "mean_of ps \<noteq> 0"
  shows "agreement_of ps = 1 - min (std_of ps / mean_of ps) 1"
  using assms by (simp add: agreement_of_def)

text \<open>
  The early return on low agreement, for vulnerabilities that carry the attribute
  \<open>actively_exploited\<close> (so that the five estimates exist): the result has score the
  mean of the estimates, confidence the agreement, uncertainty 0.5, confidence interval
  (0, 100), precision tier \<open>low\<close> and \<open>validation_passed\<close> false, and the history is
  unchanged.
\<close>

lemma low_agreement_return_when_estimates_exist:
  assumes "vulns \<noteq> []"
    and "extract_ultra_precise_features asset vulns now = Inr f"
    and "1 - min (std_of (get_ensemble_predictions f) / mean_of (get_ensemble_predictions f)) 1
           < 0.90"
  shows "(let ps = get_ensemble_predictions f;
              agreement = 1 - min (std_of ps / mean_of ps) 1
          in mean_of ps \<noteq> 0
           \<and> calculate_model_agreement ps = Inr agreement
           \<and> (\<exists>r. calculate_ultra_precise_risk en asset vulns hist gt now = Inr (r, en)
                 \<and> score r = mean_of ps
                 \<and> confidence r = agreement
                 \<and> uncertainty r = 0.5
                 \<and> confidence_interval r = (0, 100)
                 \<and> precision_level r = ''low''
                 \<and> validation_passed r = False))"
proof -
  define ps where "ps = get_ensemble_predictions f"
  have ne: "mean_of ps \<noteq> 0"
  proof
    assume "mean_of ps = 0"
    with assms(3) show False by (simp add: ps_def)
  qed
  have agr: "agreement_of ps = 1 - min (std_of ps / mean_of ps) 1"
    using ne by (rule agreement_of_five)
  have low: "agreement_of (get_ensemble_predictions f) < 0.90"
    using assms(3) agr by (simp add: ps_def)
  have val: "calculate_model_agreement ps = Inr (1 - min (std_of ps / mean_of ps) 1)"
    using agr by (simp add: ps_def predictions_agreement)
  show ?thesis
    unfolding Let_def ps_def [symmetric]
    using ne val agr ultra_low_agreement [OF assms(1) assms(2) low, of en hist gt]
    by (simp add: low_confidence_of_def ps_def)
qed

lemma low_agreement_from_variance:
  assumes "0 < m" and "(m / 10)\<^sup>2 < v"
  shows "1 - min (sqrt v / m) 1 < 0.90"
proof -
  have "m / 10 < sqrt v" using assms(2) by (rule real_less_rsqrt)
  then have "1 / 10 < sqrt v / m" using assms(1) by (simp add: field_simps)
  then have "1 / 10 < min (sqrt v / m) 1" by simp
  then have "1 - min (sqrt v / m) 1 < 9 / 10" by linarith
  then show ?thesis by simp
qed

lemma high_agreement_from_variance:
  assumes "0 < m" and "v \<le> (m / 10)\<^sup>2"
  shows "\<not> 1 - min (sqrt v / m) 1 < 0.90"
proof -
  have "sqrt v \<le> m / 10" using assms by (intro real_le_lsqrt) simp_all
  then have "sqrt v / m \<le> 1 / 10" using assms(1) by (simp add: field_simps)
  then have "min (sqrt v / m) 1 \<le> 1 / 10" by (rule min.coboundedI1)
  then have "\<not> 1 - min (sqrt v / m) 1 < 9 / 10" by linarith
  then show ?thesis by simp
qed

lemma demo_low_extract:
  "\<exists>f. extract_ultra_precise_features demo_low_asset demo_low_vulns 0 = Inr f"
  using extract_Inr_iff [of demo_low_asset demo_low_vulns 0]
  by (auto simp: demo_low_vulns_def)

lemma demo_low_predictions:
  assumes "extract_ultra_precise_features demo_low_asset demo_low_vulns 0 = Inr f"
  shows "get_ensemble_predictions f = [0, 0, 7, 0, 13 / 10]"
proof -
  note fs = extract_fields [OF assms]
  have v: "map cvss_score demo_low_vulns = [0]" "length demo_low_vulns = 1"
    by (simp_all add: demo_low_vulns_def)
  have c: "crit_val demo_low_asset = 1" "\<not> exposed_to_internet demo_low_asset"
    by (simp_all add: demo_low_asset_def crit_val_def)
  have counts: "count_if (\<lambda>v. cvss_score v \<ge> 9) demo_low_vulns = 0"
    "count_if (\<lambda>v. 7 \<le> cvss_score v \<and> cvss_score v < 9) demo_low_vulns = 0"
    "count_if (\<lambda>v. 4 \<le> cvss_score v \<and> cvss_score v < 7) demo_low_vulns = 0"
    "count_if (\<lambda>v. cvss_score v < 4) demo_low_vulns = 1"
    "count_if exploit_available demo_low_vulns = 0"
    "count_if exploit_public demo_low_vulns = 0"
    "count_if (\<lambda>v. actively_exploited v = Some True) demo_low_vulns = 0"
    by (simp_all add: count_if_def demo_low_vulns_def demo_vuln1_def)
  have m: "mean_of [0] = 0" "Max (set [0::real]) = 0" by (simp_all add: mean_of_def)
  show ?thesis
    unfolding get_ensemble_predictions_def bayesian_predict_def gradient_boosting_predict_def
      neural_network_predict_def markov_predict_def rules_based_prediction_def Let_def
      fs v counts m
    using c by simp
qed

lemma demo_low_mean: "mean_of [0, 0, 7, 0, 13 / 10] = 83 / 50"
  by (simp add: mean_of_def)

lemma demo_low_var: "var_of [0, 0, 7, 0, 13 / 10] = 4614 / 625"
  by (simp add: var_of_def demo_low_mean) (simp add: mean_of_def power2_eq_square)

lemma demo_low_disagreement:
  "1 - min (std_of [0, 0, 7, 0, 13 / 10] / mean_of [0, 0, 7, 0, 13 / 10]) 1 < 0.90"
  unfolding std_of_def
  by (rule low_agreement_from_variance) (simp_all add: demo_low_mean demo_low_var power2_eq_square)

lemma low_agreement_return_example:
  "\<exists>f. demo_low_vulns \<noteq> []
      \<and> extract_ultra_precise_features demo_low_asset demo_low_vulns 0 = Inr f
      \<and> 1 - min (std_of (get_ensemble_predictions f) / mean_of (get_ensemble_predictions f)) 1
           < 0.90
      \<and> (let ps = get_ensemble_predictions f;
              agreement = 1 - min (std_of ps / mean_of ps) 1
          in mean_of ps \<noteq> 0
           \<and> calculate_model_agreement ps = Inr agreement
           \<and> (\<exists>r. calculate_ultra_precise_risk demo_ultra_engine demo_low_asset demo_low_vulns
                      None None 0 = Inr (r, demo_ultra_engine)
                 \<and> score r = mean_of ps
                 \<and> confidence r = agreement
                 \<and> uncertainty r = 0.5
                 \<and> confidence_interval r = (0, 100)
                 \<and> precision_level r = ''low''
                 \<and> validation_passed r = False))"
proof -
  obtain f where f: "extract_ultra_precise_features demo_low_asset demo_low_vulns 0 = Inr f"
    using demo_low_extract by blast
  have ne: "demo_low_vulns \<noteq> []"
    by (simp add: demo_low_vulns_def)
  have low: "1 - min (std_of (get_ensemble_predictions f)
                        / mean_of (get_ensemble_predictions f)) 1 < 0.90"
    unfolding demo_low_predictions [OF f] by (rule demo_low_disagreement)
  show ?thesis
    using ne f low low_agreement_return_when_estimates_exist [OF ne f low, of demo_ultra_engine None None]
    by blast
qed

lemma ultra_raises_without_attribute:
  assumes "vulns \<noteq> []" and "\<not> list_all (\<lambda>v. actively_exploited v \<noteq> None) vulns"
  shows "calculate_ultra_precise_risk en asset vulns hist gt now = Inl AttributeError"
  using assms
  by (simp add: calculate_ultra_precise_risk_def extract_without_attribute)

text \<open>
  Claim C6 fails on the code. Feature extraction reads \<open>v.actively_exploited\<close>, an
  attribute the dataclass \<open>Vulnerability\<close> does not declare and nothing in the repository
  sets. On the vulnerability list of the example above as the dataclass builds it (the
  list on which the five estimates would disagree) the engine raises \<open>AttributeError\<close>
  before any estimate is computed, instead of returning the low-confidence result.
\<close>

theorem ensemble_raises_on_dataclass_vulnerabilities:
  "calculate_ultra_precise_risk demo_ultra_engine demo_low_asset
     (map (\<lambda>v. v\<lparr>actively_exploited := None\<rparr>) demo_low_vulns) None None 0
   = Inl AttributeError"
  by (rule ultra_raises_without_attribute) (simp_all add: demo_low_vulns_def)


section \<open>Documented ranges and risk levels\<close>














lemma ultra_returns:
  assumes "vulns = [] \<or> list_all (\<lambda>v. actively_exploited v \<noteq> None) vulns"
  shows "\<exists>r en'. calculate_ultra_precise_risk en asset vulns hist gt now = Inr (r, en')"
proof (cases "vulns = []")
  case True
  then show ?thesis by (simp add: ultra_no_vulns)
next
  case ne: False
  then obtain f where f: "extract_ultra_precise_features asset vulns now = Inr f"
    using assms extract_Inr_iff [of asset vulns now] by blast
  show ?thesis
  proof (cases "agreement_of (get_ensemble_predictions f) < 0.90")
    case True
    then show ?thesis using ultra_low_agreement [OF ne f, of en hist gt] by simp
  next
    case False
    then show ?thesis using ultra_agreement [OF ne f, of en hist gt] by blast
  qed
qed

text \<open>
  Claim C10. No value of the enum \<open>RiskLevel\<close> is the string \<open>Uncertain\<close>. When the
  engine takes the early return on low agreement (at least one vulnerability, the
  estimates exist, their agreement is below 0.90) it returns a result whose risk level
  is \<open>Uncertain\<close>. Every result the engine returns on another path, the empty list or
  agreement of at least 0.90, has as risk level the value of one of the five levels.
\<close>

theorem risk_level_uncertain_exactly_on_low_agreement:
  "(\<forall>l. RiskLevel_value l \<noteq> ''Uncertain'')
   \<and> (vulns \<noteq> [] \<and> extract_ultra_precise_features asset vulns now = Inr f
        \<and> calculate_model_agreement (get_ensemble_predictions f) = Inr a \<and> a < 0.90
      \<longrightarrow> (\<exists>r. calculate_ultra_precise_risk en asset vulns hist gt now = Inr (r, en)
               \<and> risk_level r = ''Uncertain''))
   \<and> (calculate_ultra_precise_risk en asset vulns hist gt now = Inr (r', en')
        \<and> \<not> (vulns \<noteq> []
               \<and> (\<exists>g b. extract_ultra_precise_features asset vulns now = Inr g
                      \<and> calculate_model_agreement (get_ensemble_predictions g) = Inr b
                      \<and> b < 0.90))
      \<longrightarrow> (\<exists>l. risk_level r' = RiskLevel_value l))"
proof (intro conjI allI impI)
  fix l show "RiskLevel_value l \<noteq> ''Uncertain''" by (rule uncertain_is_no_level)
next
  assume "vulns \<noteq> [] \<and> extract_ultra_precise_features asset vulns now = Inr f
            \<and> calculate_model_agreement (get_ensemble_predictions f) = Inr a \<and> a < 0.90"
  then have "vulns \<noteq> []" "extract_ultra_precise_features asset vulns now = Inr f"
    "agreement_of (get_ensemble_predictions f) < 0.90"
    by (simp_all add: predictions_agreement)
  then show "\<exists>r. calculate_ultra_precise_risk en asset vulns hist gt now = Inr (r, en)
               \<and> risk_level r = ''Uncertain''"
    using ultra_low_agreement [of vulns asset now f en hist gt]
    by (simp add: low_confidence_of_def)
next
  assume a: "calculate_ultra_precise_risk en asset vulns hist gt now = Inr (r', en')
        \<and> \<not> (vulns \<noteq> []
               \<and> (\<exists>g b. extract_ultra_precise_features asset vulns now = Inr g
                      \<and> calculate_model_agreement (get_ensemble_predictions g) = Inr b
                      \<and> b < 0.90))"
  show "\<exists>l. risk_level r' = RiskLevel_value l"
  proof (cases "vulns = []")
    case True
    then have "r' = zero_risk_score" using a by (simp add: ultra_no_vulns)
    then have "risk_level r' = RiskLevel_value INFORMATIONAL"
      by (simp add: zero_risk_score_def)
    then show ?thesis by blast
  next
    case ne: False
    show ?thesis
    proof (cases "extract_ultra_precise_features asset vulns now")
      case (Inl err)
      then show ?thesis using a ultra_raises [OF ne Inl, of en hist gt] by simp
    next
      case (Inr g)
      then have "\<not> agreement_of (get_ensemble_predictions g) < 0.90"
        using a ne predictions_agreement [of g] by blast
      then obtain r where
        "calculate_ultra_precise_risk en asset vulns hist gt now
           = Inr (r, update_prediction_history en r gt now)"
        "risk_level r = categorize_risk_ultra_precise (score r) (confidence r) (uncertainty r)"
        using ultra_agreement [OF ne Inr, of en hist gt] by blast
      then have "risk_level r'
                   = categorize_risk_ultra_precise (score r') (confidence r') (uncertainty r')"
        using a by simp
      then show ?thesis using categorize_is_level by simp
    qed
  qed
qed

lemma demo_ensemble_extract:
  "\<exists>f. extract_ultra_precise_features demo_asset demo_ensemble_vulns 0 = Inr f"
  using extract_Inr_iff [of demo_asset demo_ensemble_vulns 0]
  by (auto simp: demo_ensemble_vulns_def)

lemma demo_ensemble_predictions:
  assumes "extract_ultra_precise_features demo_asset demo_ensemble_vulns 0 = Inr f"
  shows "get_ensemble_predictions f = [100, 84, 100, 476 / 5, 100]"
proof -
  note fs = extract_fields [OF assms]
  have v: "map cvss_score demo_ensemble_vulns = [49 / 5, 5, 9]" "length demo_ensemble_vulns = 3"
    by (simp_all add: demo_ensemble_vulns_def demo_vuln1_def demo_vuln2_def demo_vuln3_def)
  have c: "crit_val demo_asset = 10" "exposed_to_internet demo_asset"
    by (simp_all add: demo_asset_def crit_val_def)
  have counts: "count_if (\<lambda>v. cvss_score v \<ge> 9) demo_ensemble_vulns = 2"
    "count_if (\<lambda>v. 7 \<le> cvss_score v \<and> cvss_score v < 9) demo_ensemble_vulns = 0"
    "count_if (\<lambda>v. 4 \<le> cvss_score v \<and> cvss_score v < 7) demo_ensemble_vulns = 1"
    "count_if (\<lambda>v. cvss_score v < 4) demo_ensemble_vulns = 0"
    "count_if exploit_available demo_ensemble_vulns = 2"
    "count_if exploit_public demo_ensemble_vulns = 0"
    "count_if (\<lambda>v. actively_exploited v = Some True) demo_ensemble_vulns = 0"
    by (simp_all add: count_if_def demo_ensemble_vulns_def demo_vuln1_def demo_vuln2_def
        demo_vuln3_def)
  have m: "mean_of [49 / 5, 5, 9] = 119 / 15" "Max (set [49 / 5, 5, 9::real]) = 49 / 5"
    by (simp_all add: mean_of_def)
  show ?thesis
    unfolding get_ensemble_predictions_def bayesian_predict_def gradient_boosting_predict_def
      neural_network_predict_def markov_predict_def rules_based_prediction_def Let_def
      fs v counts m
    using c by simp
qed

lemma demo_ensemble_mean: "mean_of [100, 84, 100, 476 / 5, 100] = 2396 / 25"
  by (simp add: mean_of_def)

lemma demo_ensemble_var: "var_of [100, 84, 100, 476 / 5, 100] = 24064 / 625"
  by (simp add: var_of_def demo_ensemble_mean) (simp add: mean_of_def power2_eq_square)

lemma demo_ensemble_agreement:
  "\<not> agreement_of [100, 84, 100, 476 / 5, 100] < 0.90"
proof -
  have "\<not> 1 - min (sqrt (var_of [100, 84, 100, 476 / 5, 100])
                      / mean_of [100, 84, 100, 476 / 5, 100]) 1 < 0.90"
    by (rule high_agreement_from_variance)
       (simp_all add: demo_ensemble_mean demo_ensemble_var power2_eq_square)
  then show ?thesis
    by (simp add: agreement_of_five std_of_def demo_ensemble_mean)
qed

lemma demo_low_agreement:
  assumes "extract_ultra_precise_features demo_low_asset demo_low_vulns 0 = Inr f"
  shows "agreement_of (get_ensemble_predictions f) < 0.90"
  unfolding demo_low_predictions [OF assms]
  using demo_low_disagreement by (simp add: agreement_of_five demo_low_mean)

theorem risk_level_uncertain_exactly_on_low_agreement_witness:
  "(\<exists>r. calculate_ultra_precise_risk demo_ultra_engine demo_low_asset demo_low_vulns
            None None 0 = Inr (r, demo_ultra_engine)
        \<and> risk_level r = ''Uncertain'')
   \<and> (\<exists>r' en' l. calculate_ultra_precise_risk demo_ultra_engine demo_asset
                     demo_ensemble_vulns None None 0 = Inr (r', en')
        \<and> risk_level r' = RiskLevel_value l)"
proof
  obtain f where f: "extract_ultra_precise_features demo_low_asset demo_low_vulns 0 = Inr f"
    using demo_low_extract by blast
  have ne: "demo_low_vulns \<noteq> []" by (simp add: demo_low_vulns_def)
  show "\<exists>r. calculate_ultra_precise_risk demo_ultra_engine demo_low_asset demo_low_vulns
              None None 0 = Inr (r, demo_ultra_engine)
          \<and> risk_level r = ''Uncertain''"
    using risk_level_uncertain_exactly_on_low_agreement [where vulns = demo_low_vulns
        and asset = demo_low_asset and now = 0 and f = f
        and a = "agreement_of (get_ensemble_predictions f)"
        and en = demo_ultra_engine and hist = None and gt = None]
      ne f demo_low_agreement [OF f] predictions_agreement [of f]
    by blast
next
  obtain g where g: "extract_ultra_precise_features demo_asset demo_ensemble_vulns 0 = Inr g"
    using demo_ensemble_extract by blast
  have high: "\<not> agreement_of (get_ensemble_predictions g) < 0.90"
    unfolding demo_ensemble_predictions [OF g] by (rule demo_ensemble_agreement)
  obtain r' en' where r: "calculate_ultra_precise_risk demo_ultra_engine demo_asset
                            demo_ensemble_vulns None None 0 = Inr (r', en')"
    using ultra_returns [of demo_ensemble_vulns demo_ultra_engine demo_asset None None 0]
    by (auto simp: demo_ensemble_vulns_def)
  have "\<not> (demo_ensemble_vulns \<noteq> []
           \<and> (\<exists>g' b. extract_ultra_precise_features demo_asset demo_ensemble_vulns 0 = Inr g'
                  \<and> calculate_model_agreement (get_ensemble_predictions g') = Inr b
                  \<and> b < 0.90))"
    using g high by (auto simp: predictions_agreement)
  then have "\<exists>l. risk_level r' = RiskLevel_value l"
    using risk_level_uncertain_exactly_on_low_agreement [where vulns = demo_ensemble_vulns
        and asset = demo_asset and now = 0 and en = demo_ultra_engine and hist = None
        and gt = None and r' = r' and en' = en']
      r
    by blast
  then show "\<exists>r' en' l. calculate_ultra_precise_risk demo_ultra_engine demo_asset
                         demo_ensemble_vulns None None 0 = Inr (r', en')
             \<and> risk_level r' = RiskLevel_value l"
    using r by blast
qed



end
